theory Spec2Isabelle
  imports Complex_Main "HOL-Library.Word" "HOL-Library.AList"
begin

section \<open>Grad-CAM over a Keras classifier: data model\<close>

text \<open>
  The development embeds \<^verbatim>\<open>code_models/gradcam.py\<close> (class \<^verbatim>\<open>GradCAM\<close>).
  Python values are modelled as follows.
  \<^item> Floating-point numbers are idealised as \<open>real\<close> in the computations on tensors (the
    forward pass, the gradient, the class activation map and the interpolation of the
    resize): their rounding is outside the model there. The arithmetic of the
    normalisation (lines 97 to 100) is that of IEEE 754, as the array library applies
    it, and the arithmetic of the blend of the overlay is a parameter.
  \<^item> A Keras layer is a record of what the constructor and the queries read from it: its
    name, its \<^verbatim>\<open>output_shape\<close> (a tuple whose entries are integers or \<^verbatim>\<open>None\<close>), the dict
    returned by \<^verbatim>\<open>get_config()\<close> (an association list in insertion order), the variables
    holding its weights (addresses into a store) and its class.
  \<^item> The variables of all layers live in a store; an address is an index into it.
  \<^item> A classifier is the list \<^verbatim>\<open>model.layers\<close>, evaluated as a chain: every stage is fed
    the output of the stage before it.
  \<^item> Every \<^verbatim>\<open>raise\<close> is a value \<open>Inl e\<close> of a sum type.
\<close>

datatype error =
    IndexError
  | KeyError string
  | TypeError
  | ValueError string
  | InvalidArgumentError string
  | CvError
  | ProcessKilled

text \<open>\<open>ProcessKilled\<close> stands for a signal that ends the interpreter (no exception is raised).\<close>

subsection \<open>Floating-point numbers\<close>

text \<open>A floating-point number is finite or not (an infinity or NaN).\<close>

datatype float_value = Finite real | NonFinite

text \<open>Rounding to the nearest integer, halves to the even neighbour.\<close>

definition cv_round :: "real \<Rightarrow> int" where
  "cv_round v =
     (if v - of_int \<lfloor>v\<rfloor> < 1 / 2 then \<lfloor>v\<rfloor>
      else if v - of_int \<lfloor>v\<rfloor> > 1 / 2 then \<lfloor>v\<rfloor> + 1
      else if even \<lfloor>v\<rfloor> then \<lfloor>v\<rfloor> else \<lfloor>v\<rfloor> + 1)"

text \<open>
  Every operation of IEEE 754 gives the number of the format nearest to the exact result
  (halves to the even neighbour), or an infinity when that is too large for the format.
  A format has \<open>p\<close> significant bits and exponents from \<open>emin\<close> to \<open>emax\<close>: single precision
  is 24 bits and exponents from -126 to 127, double precision 53 bits and exponents from
  -1022 to 1023.
\<close>

definition ilog2 :: "real \<Rightarrow> int" where
  "ilog2 x = \<lfloor>log 2 x\<rfloor>"

definition ieee_round :: "nat \<Rightarrow> int \<Rightarrow> int \<Rightarrow> real \<Rightarrow> float_value" where
  "ieee_round p emin emax x =
     (if x = 0 then Finite 0
      else (let e = max emin (ilog2 \<bar>x\<bar>);
                u = 2 powi (e - int p + 1);
                r = of_int (cv_round (x / u)) * u
            in if 2 powi (emax + 1) \<le> \<bar>r\<bar> then NonFinite else Finite r))"

definition to_single :: "real \<Rightarrow> float_value" where
  "to_single x = ieee_round 24 (- 126) 127 x"

definition to_double :: "real \<Rightarrow> float_value" where
  "to_double x = ieee_round 53 (- 1022) 1023 x"

text \<open>The conversion of a double to single precision.\<close>

definition cast_single :: "float_value \<Rightarrow> float_value" where
  "cast_single q = (case q of Finite v \<Rightarrow> to_single v | NonFinite \<Rightarrow> NonFinite)"

text \<open>
  A sum or a product in single precision: an operand that is not finite gives a result
  that is not finite.
\<close>

definition single_op ::
  "(real \<Rightarrow> real \<Rightarrow> real) \<Rightarrow> float_value \<Rightarrow> float_value \<Rightarrow> float_value" where
  "single_op f a b =
     (case a of
        Finite x \<Rightarrow> (case b of Finite y \<Rightarrow> to_single (f x y) | NonFinite \<Rightarrow> NonFinite)
      | NonFinite \<Rightarrow> NonFinite)"

subsection \<open>Tensors, layers and classifiers\<close>

datatype activation = Linear | Softmax | Relu | Sigmoid | Tanh

datatype cfg = CStr string | CInt int | CBool bool | CFn activation | CNone

datatype tensor = Rank2 "real list list" | Rank4 "real list list list list"

datatype ndarray = Vec "real list" | Mat "real list list"

type_synonym addr = nat
type_synonym store = "ndarray list"

datatype layer_class = Dense | Other "ndarray list \<Rightarrow> tensor \<Rightarrow> error + tensor"

record layer =
  name :: string
  output_shape :: "int option list"
  config :: "(string \<times> cfg) list"
  weights :: "addr list"
  cls :: layer_class

record keras_model =
  layers :: "layer list"

record GradCAM =
  model :: keras_model
  target_layer_name :: string

text \<open>The initial value an initializer gives to the entry at a multi-index of a new variable.\<close>

type_synonym initializer = "nat list \<Rightarrow> real"

subsection \<open>Python indexing and dict access\<close>

text \<open>\<^verbatim>\<open>xs[i]\<close> on a list: a negative index counts from the end, out of range raises.\<close>

definition py_index :: "'a list \<Rightarrow> int \<Rightarrow> error + 'a" where
  "py_index xs i =
     (if 0 \<le> i \<and> i < int (length xs) then Inr (xs ! nat i)
      else if i < 0 \<and> - int (length xs) \<le> i then Inr (xs ! nat (int (length xs) + i))
      else Inl IndexError)"

text \<open>\<^verbatim>\<open>d[k]\<close> on a dict: a missing key raises \<^verbatim>\<open>KeyError\<close>.\<close>

definition dict_get :: "(string \<times> cfg) list \<Rightarrow> string \<Rightarrow> error + cfg" where
  "dict_get d k = (case map_of d k of None \<Rightarrow> Inl (KeyError k) | Some v \<Rightarrow> Inr v)"

subsection \<open>The Dense stage\<close>

text \<open>
  The keyword arguments \<^verbatim>\<open>Dense(**config)\<close> accepts: those of \<^verbatim>\<open>Dense.__init__\<close> and of
  the base \<^verbatim>\<open>Layer\<close>. Any other keyword is a \<^verbatim>\<open>TypeError\<close>.
\<close>

definition dense_keys :: "string list" where
  "dense_keys =
     [''units'', ''activation'', ''use_bias'', ''kernel_initializer'', ''bias_initializer'',
      ''kernel_regularizer'', ''bias_regularizer'', ''activity_regularizer'',
      ''kernel_constraint'', ''bias_constraint'', ''name'', ''trainable'', ''dtype'',
      ''dynamic'', ''input_dim'', ''input_shape'', ''batch_input_shape'', ''batch_size'',
      ''weights'', ''autocast'']"

text \<open>\<^verbatim>\<open>tf.keras.activations.get\<close>: a known name, a function, or \<^verbatim>\<open>None\<close> (linear).\<close>

fun activation_get :: "cfg option \<Rightarrow> error + activation" where
  "activation_get None = Inr Linear"
| "activation_get (Some CNone) = Inr Linear"
| "activation_get (Some (CFn a)) = Inr a"
| "activation_get (Some (CStr s)) =
     (if s = ''linear'' then Inr Linear
      else if s = ''softmax'' then Inr Softmax
      else if s = ''relu'' then Inr Relu
      else if s = ''sigmoid'' then Inr Sigmoid
      else if s = ''tanh'' then Inr Tanh
      else Inl (ValueError ''Unknown activation function''))"
| "activation_get (Some _) = Inl TypeError"

definition use_bias :: "(string \<times> cfg) list \<Rightarrow> bool" where
  "use_bias c = (map_of c ''use_bias'' \<noteq> Some (CBool False))"

fun apply_activation :: "activation \<Rightarrow> real list \<Rightarrow> real list" where
  "apply_activation Linear z = z"
| "apply_activation Softmax z = map (\<lambda>x. exp x / sum_list (map exp z)) z"
| "apply_activation Relu z = map (max 0) z"
| "apply_activation Sigmoid z = map (\<lambda>x. 1 / (1 + exp (- x))) z"
| "apply_activation Tanh z = map tanh z"

text \<open>The product of a feature vector with a kernel of \<open>length x\<close> rows.\<close>

definition matmul_row :: "real list \<Rightarrow> real list list \<Rightarrow> real list" where
  "matmul_row x K = map (\<lambda>col. sum_list (map2 (*) x col)) (transpose K)"

text \<open>
  The affine part of a Dense stage on one feature vector: \<^verbatim>\<open>x . kernel\<close>, plus the bias when
  the stage uses one. Operands whose sizes do not fit are an error of the tensor library.
\<close>

definition size_incompatible :: error where
  "size_incompatible = InvalidArgumentError ''Matrix size-incompatible''"

fun dense_affine :: "bool \<Rightarrow> ndarray list \<Rightarrow> real list \<Rightarrow> error + real list" where
  "dense_affine False [Mat K] x =
     (if length x = length K then Inr (matmul_row x K) else Inl size_incompatible)"
| "dense_affine True [Mat K, Vec b] x =
     (if length x = length K \<and> length (matmul_row x K) = length b
      then Inr (map2 (+) (matmul_row x K) b) else Inl size_incompatible)"
| "dense_affine _ _ _ = Inl size_incompatible"

text \<open>Collect the results of a list of fallible computations; the first error wins.\<close>

fun sequence :: "(error + 'a) list \<Rightarrow> error + 'a list" where
  "sequence [] = Inr []"
| "sequence (r # rs) =
     (case r of Inl e \<Rightarrow> Inl e
      | Inr x \<Rightarrow> (case sequence rs of Inl e \<Rightarrow> Inl e | Inr xs \<Rightarrow> Inr (x # xs)))"

text \<open>A function on feature vectors, applied along the last axis of a tensor.\<close>

fun on_last_axis :: "(real list \<Rightarrow> error + real list) \<Rightarrow> tensor \<Rightarrow> error + tensor" where
  "on_last_axis f (Rank2 rows) = map_sum id Rank2 (sequence (map f rows))"
| "on_last_axis f (Rank4 t) =
     map_sum id Rank4
       (sequence (map (\<lambda>vol. sequence (map (\<lambda>row. sequence (map f row)) vol)) t))"

text \<open>The raw scores of a Dense stage (before its activation), and its output.\<close>

definition dense_logits :: "(string \<times> cfg) list \<Rightarrow> ndarray list \<Rightarrow> tensor \<Rightarrow> error + tensor" where
  "dense_logits c ws t = on_last_axis (dense_affine (use_bias c) ws) t"

definition dense_call :: "(string \<times> cfg) list \<Rightarrow> ndarray list \<Rightarrow> tensor \<Rightarrow> error + tensor" where
  "dense_call c ws t =
     (case activation_get (map_of c ''activation'') of
        Inl e \<Rightarrow> Inl e
      | Inr a \<Rightarrow>
          on_last_axis
            (\<lambda>x. map_sum id (apply_activation a) (dense_affine (use_bias c) ws x)) t)"

subsection \<open>Evaluating a classifier\<close>

text \<open>\<^verbatim>\<open>[x.numpy() for x in layer.weights]\<close>: the current values of a stage's variables.\<close>

definition read_weights :: "store \<Rightarrow> layer \<Rightarrow> ndarray list" where
  "read_weights s l = map (\<lambda>a. s ! a) (weights l)"

definition layer_call :: "store \<Rightarrow> layer \<Rightarrow> tensor \<Rightarrow> error + tensor" where
  "layer_call s l t =
     (case cls l of
        Dense \<Rightarrow> dense_call (config l) (read_weights s l) t
      | Other f \<Rightarrow> f (read_weights s l) t)"

fun forward :: "store \<Rightarrow> layer list \<Rightarrow> tensor \<Rightarrow> error + tensor" where
  "forward s [] t = Inr t"
| "forward s (l # ls) t =
     (case layer_call s l t of Inl e \<Rightarrow> Inl e | Inr t' \<Rightarrow> forward s ls t')"

text \<open>\<^verbatim>\<open>model(x)\<close>: the output of the last stage.\<close>

definition predict :: "store \<Rightarrow> keras_model \<Rightarrow> tensor \<Rightarrow> error + tensor" where
  "predict s m x = forward s (layers m) x"

text \<open>
  The pre-softmax scores of a classifier whose last stage is Dense: the stages before the
  last one, then the affine part of the last one.
\<close>

definition logits :: "store \<Rightarrow> keras_model \<Rightarrow> tensor \<Rightarrow> error + tensor" where
  "logits s m x =
     (case forward s (butlast (layers m)) x of
        Inl e \<Rightarrow> Inl e
      | Inr t \<Rightarrow> dense_logits (config (last (layers m))) (read_weights s (last (layers m))) t)"

section \<open>Construction: \<^verbatim>\<open>GradCAM.__init__\<close>\<close>

subsection \<open>Building the linear Dense stage\<close>

text \<open>
  \<^verbatim>\<open>Dense(**config)\<close>: the keywords must be known, \<^verbatim>\<open>units\<close> must be a positive integer and
  the activation must resolve.
\<close>

definition Dense_init :: "(string \<times> cfg) list \<Rightarrow> error + nat" where
  "Dense_init c =
     (if \<not> list_all (\<lambda>k. k \<in> set dense_keys) (map fst c) then Inl TypeError
      else case map_of c ''units'' of
          Some (CInt u) \<Rightarrow>
            (if u \<le> 0 then Inl (ValueError ''units must be a positive integer'')
             else (case activation_get (map_of c ''activation'') of
                     Inl e \<Rightarrow> Inl e | Inr a \<Rightarrow> Inr (nat u)))
        | _ \<Rightarrow> Inl TypeError)"

text \<open>
  Calling the new stage on the output of another stage builds it: the last dimension of
  that output must be known; a kernel of that many rows and \<open>units\<close> columns is allocated,
  and a bias of \<open>units\<close> entries when the stage uses one.
\<close>

definition new_kernel :: "initializer \<Rightarrow> nat \<Rightarrow> nat \<Rightarrow> ndarray" where
  "new_kernel ini d u = Mat (map (\<lambda>i. map (\<lambda>j. ini [i, j]) [0..<u]) [0..<d])"

definition new_bias :: "initializer \<Rightarrow> nat \<Rightarrow> ndarray" where
  "new_bias ini u = Vec (map (\<lambda>j. ini [j]) [0..<u])"

definition Dense_build ::
  "initializer \<Rightarrow> store \<Rightarrow> (string \<times> cfg) list \<Rightarrow> nat \<Rightarrow> layer \<Rightarrow> error + (layer \<times> store)" where
  "Dense_build ini s c u inp =
     (if output_shape inp = [] then Inl (ValueError ''Dense needs an input of rank 1 or more'')
      else case last (output_shape inp) of
          None \<Rightarrow> Inl (ValueError ''The last dimension of the inputs to Dense should be defined'')
        | Some d \<Rightarrow>
            (let vars = (if use_bias c then [new_kernel ini (nat d) u, new_bias ini u]
                         else [new_kernel ini (nat d) u]);
                 l = \<lparr> name = (case map_of c ''name'' of Some (CStr n) \<Rightarrow> n | _ \<Rightarrow> ''dense''),
                       output_shape = butlast (output_shape inp) @ [Some (int u)],
                       config = c,
                       weights = [length s ..< length s + length vars],
                       cls = Dense \<rparr>
             in Inr (l, s @ vars)))"

subsection \<open>\<^verbatim>\<open>set_weights\<close>\<close>

fun shape_of :: "ndarray \<Rightarrow> nat list" where
  "shape_of (Vec v) = [length v]"
| "shape_of (Mat m) = [length m, (case m of [] \<Rightarrow> 0 | r # _ \<Rightarrow> length r)]"

fun assign_all :: "store \<Rightarrow> (addr \<times> ndarray) list \<Rightarrow> store" where
  "assign_all s [] = s"
| "assign_all s ((a, w) # aws) = assign_all (s[a := w]) aws"

text \<open>
  \<^verbatim>\<open>layer.set_weights(ws)\<close>: the number of arrays and the shape of each must fit the stage's
  variables; then every variable is assigned its array.
\<close>

definition set_weights :: "store \<Rightarrow> layer \<Rightarrow> ndarray list \<Rightarrow> error + store" where
  "set_weights s l ws =
     (if length ws \<noteq> length (weights l)
      then Inl (ValueError ''weight list does not match the layer'')
      else if map shape_of ws \<noteq> map (\<lambda>a. shape_of (s ! a)) (weights l)
      then Inl (ValueError ''weight shape not compatible'')
      else Inr (assign_all s (zip (weights l) ws)))"

subsection \<open>The search for the target stage\<close>

text \<open>
  Lines 38 to 45: the loop over \<^verbatim>\<open>reversed(self.model.layers)\<close>. The test
  \<^verbatim>\<open>len(layer.output_shape) == 4 and layer.output_shape[1] >= target_layer_min_shape\<close>
  compares \<^verbatim>\<open>None\<close> with an integer when the height of a rank-4 output is unknown, which
  Python 3 refuses with a \<^verbatim>\<open>TypeError\<close>.
\<close>

definition no_4d_layer :: error where
  "no_4d_layer = ValueError ''Could not find 4D layer. Cannot apply GradCAM.''"

fun scan_layers :: "layer list \<Rightarrow> int \<Rightarrow> error + string" where
  "scan_layers [] m = Inl no_4d_layer"
| "scan_layers (l # ls) m =
     (if length (output_shape l) = 4 then
        (case output_shape l ! 1 of
           None \<Rightarrow> Inl TypeError
         | Some d \<Rightarrow> if d \<ge> m then Inr (name l) else scan_layers ls m)
      else scan_layers ls m)"

definition find_target_layer :: "keras_model \<Rightarrow> int \<Rightarrow> error + string" where
  "find_target_layer m target_layer_min_shape =
     scan_layers (rev (layers m)) target_layer_min_shape"

subsection \<open>The constructor\<close>

text \<open>
  Lines 17 to 31. In the softmax case the dict returned by \<^verbatim>\<open>get_config()\<close> is changed in
  two entries, a Dense stage is created from it on the output of \<^verbatim>\<open>model.layers[-2]\<close>, the
  new classifier consists of the stages before the last one and the new stage, and the
  values read from the old stage's variables are assigned to the new stage's variables.
\<close>

text \<open>
  \<^verbatim>\<open>tf.keras.models.Model(inputs=..., outputs=...)\<close> on the chain of stages that leads to the
  output: the names of the stages must be unique.
\<close>

definition Model :: "layer list \<Rightarrow> error + keras_model" where
  "Model ls =
     (if distinct (map name ls) then Inr \<lparr> layers = ls \<rparr>
      else Inl (ValueError ''All layer names should be unique''))"

definition linearize :: "initializer \<Rightarrow> store \<Rightarrow> keras_model \<Rightarrow> error + (keras_model \<times> store)" where
  "linearize ini s m =
     (case py_index (layers m) (- 1) of
        Inl e \<Rightarrow> Inl e
      | Inr lst \<Rightarrow>
     (case dict_get (config lst) ''activation'' of
        Inl e \<Rightarrow> Inl e
      | Inr act \<Rightarrow>
          if act = CStr ''softmax'' then
            (let ws = read_weights s lst;
                 c = AList.update ''name'' (CStr ''new_layer'')
                       (AList.update ''activation'' (CFn Linear) (config lst))
             in case Dense_init c of
                  Inl e \<Rightarrow> Inl e
                | Inr u \<Rightarrow>
               (case py_index (layers m) (- 2) of
                  Inl e \<Rightarrow> Inl e
                | Inr inp \<Rightarrow>
               (case Dense_build ini s c u inp of
                  Inl e \<Rightarrow> Inl e
                | Inr (new_layer, s1) \<Rightarrow>
               (case Model (butlast (layers m) @ [new_layer]) of
                  Inl e \<Rightarrow> Inl e
                | Inr new_model \<Rightarrow>
               (case set_weights s1 new_layer ws of
                  Inl e \<Rightarrow> Inl e
                | Inr s2 \<Rightarrow> Inr (new_model, s2))))))
          else Inr (m, s)))"

text \<open>Lines 35 to 48: the target stage, searched for or taken as given.\<close>

definition GradCAM_init ::
  "initializer \<Rightarrow> store \<Rightarrow> keras_model \<Rightarrow> string option \<Rightarrow> int \<Rightarrow> error + (GradCAM \<times> store)" where
  "GradCAM_init ini s m target_layer target_layer_min_shape =
     (case linearize ini s m of
        Inl e \<Rightarrow> Inl e
      | Inr (m', s') \<Rightarrow>
          (case target_layer of
             None \<Rightarrow>
               (case find_target_layer m' target_layer_min_shape of
                  Inl e \<Rightarrow> Inl e
                | Inr n \<Rightarrow> Inr (\<lparr> model = m', target_layer_name = n \<rparr>, s'))
           | Some n \<Rightarrow> Inr (\<lparr> model = m', target_layer_name = n \<rparr>, s')))"

section \<open>Queries\<close>

subsection \<open>Services of the tensor and image libraries\<close>

text \<open>
  Two services are parameters of the embedding, as the libraries that provide them are
  not part of the program:
  \<^item> \<^verbatim>\<open>tape.gradient(loss, convOutputs)\<close>: given the function that maps the target stage's
    output to the score under differentiation, and that output, the gradient;
  \<^item> the interpolation of \<^verbatim>\<open>cv2.resize\<close>: the value of the destination pixel in row \<open>y\<close>
    and column \<open>x\<close>, for a source map and a destination of \<open>w\<close> columns and \<open>h\<close> rows.
\<close>

type_synonym tape = "(tensor \<Rightarrow> error + real) \<Rightarrow> tensor \<Rightarrow> tensor"
type_synonym interpolation = "real list list \<Rightarrow> nat \<Rightarrow> nat \<Rightarrow> nat \<Rightarrow> nat \<Rightarrow> real"

type_synonym uint8 = "8 word"

text \<open>The size of the first entry along an axis (0 when there is none).\<close>

definition dim_hd :: "'a list list \<Rightarrow> nat" where
  "dim_hd xs = (case xs of [] \<Rightarrow> 0 | x # _ \<Rightarrow> length x)"

fun tensor_shape :: "tensor \<Rightarrow> nat list" where
  "tensor_shape (Rank2 rows) = [length rows, dim_hd rows]"
| "tensor_shape (Rank4 t) =
     [length t, dim_hd t, dim_hd (concat t), dim_hd (concat (concat t))]"

text \<open>\<^verbatim>\<open>model.get_layer(name)\<close>: the position of the first stage of that name.\<close>

fun get_layer :: "layer list \<Rightarrow> string \<Rightarrow> error + nat" where
  "get_layer [] n = Inl (ValueError ''No such layer'')"
| "get_layer (l # ls) n =
     (if name l = n then Inr 0
      else (case get_layer ls n of Inl e \<Rightarrow> Inl e | Inr k \<Rightarrow> Inr (Suc k)))"

text \<open>
  \<^verbatim>\<open>predictions[:, classIdx]\<close> on a tensor: the index is taken along axis 1. The bounds
  \<^verbatim>\<open>classIdx\<close> and \<^verbatim>\<open>classIdx + 1\<close> of the slice are converted to 64-bit integers, which raises
  a \<^verbatim>\<open>ValueError\<close> when they do not fit; a negative index counts from the end of the
  axis; an index outside the axis is refused by the slice operation.
  The selected entries are returned as one list.
\<close>

definition slice_out_of_bounds :: error where
  "slice_out_of_bounds = InvalidArgumentError ''slice index of dimension 1 out of bounds''"

definition tf_index :: "nat \<Rightarrow> int \<Rightarrow> error + nat" where
  "tf_index n i =
     (if i < - (2 ^ 63) \<or> 2 ^ 63 - 1 \<le> i
      then Inl (ValueError ''slice bound out of range for int64'')
      else if 0 \<le> i \<and> i < int n then Inr (nat i)
      else if i < 0 \<and> - int n \<le> i then Inr (nat (int n + i))
      else Inl slice_out_of_bounds)"

fun slice_axis1 :: "tensor \<Rightarrow> int \<Rightarrow> error + real list" where
  "slice_axis1 (Rank2 rows) i =
     (case tf_index (dim_hd rows) i of
        Inl e \<Rightarrow> Inl e
      | Inr j \<Rightarrow> Inr (map (\<lambda>r. r ! j) rows))"
| "slice_axis1 (Rank4 t) i =
     (case tf_index (dim_hd t) i of
        Inl e \<Rightarrow> Inl e
      | Inr j \<Rightarrow> Inr (concat (concat (map (\<lambda>v. v ! j) t))))"

text \<open>The score under differentiation, as a function of the target stage's output.\<close>

definition loss_of :: "store \<Rightarrow> layer list \<Rightarrow> int \<Rightarrow> tensor \<Rightarrow> error + real" where
  "loss_of s rest classIdx t =
     (case forward s rest t of
        Inl e \<Rightarrow> Inl e
      | Inr predictions \<Rightarrow>
          (case slice_axis1 predictions classIdx of
             Inl e \<Rightarrow> Inl e
           | Inr loss \<Rightarrow> Inr (sum_list loss)))"

subsection \<open>Guided gradients, channel weights, class activation map\<close>

text \<open>Lines 72 to 74, on tensors with a batch axis.\<close>

definition cast_positive :: "real list list list list \<Rightarrow> real list list list list" where
  "cast_positive t = map (map (map (map (\<lambda>v. of_bool (v > 0))))) t"

definition multiply4 ::
  "real list list list list \<Rightarrow> real list list list list \<Rightarrow> real list list list list" where
  "multiply4 a b = map2 (map2 (map2 (map2 (*)))) a b"

definition guided_grads ::
  "real list list list list \<Rightarrow> real list list list list \<Rightarrow> real list list list list" where
  "guided_grads convOutputs grads =
     (let castConvOutputs = cast_positive convOutputs;
          castGrads = cast_positive grads
      in multiply4 (multiply4 castConvOutputs castGrads) grads)"

text \<open>Line 85: \<^verbatim>\<open>tf.reduce_mean(guidedGrads, axis=(0, 1))\<close>, one mean per channel.\<close>

definition reduce_mean_01 :: "real list list list \<Rightarrow> real list" where
  "reduce_mean_01 t =
     map (\<lambda>c. sum_list (map (\<lambda>p. p ! c) (concat t)) / real (length (concat t)))
       [0 ..< dim_hd (concat t)]"

text \<open>
  Line 86: \<^verbatim>\<open>tf.multiply(weights, convOutputs)\<close> pairs the weights with the channels of
  every location; \<^verbatim>\<open>tf.reduce_sum(..., axis=-1)\<close> adds up over the channels.
\<close>

definition weighted_sum :: "real list \<Rightarrow> real list list list \<Rightarrow> real list list" where
  "weighted_sum ws convOutputs = map (map (\<lambda>p. sum_list (map2 (*) ws p))) convOutputs"

definition class_activation_map :: "real list list list \<Rightarrow> real list list list \<Rightarrow> real list list" where
  "class_activation_map convOutputs guidedGrads =
     (let weights = reduce_mean_01 guidedGrads
      in weighted_sum weights convOutputs)"

subsection \<open>Resizing and normalisation\<close>

text \<open>
  \<^verbatim>\<open>cv2.resize(src, (w, h))\<close>: an empty source or an empty destination is refused; the result
  has \<open>h\<close> rows of \<open>w\<close> interpolated values.
\<close>

definition cv2_resize :: "interpolation \<Rightarrow> real list list \<Rightarrow> nat \<times> nat \<Rightarrow> error + real list list" where
  "cv2_resize interp src dsize =
     (case dsize of (w, h) \<Rightarrow>
        if concat src = [] \<or> w = 0 \<or> h = 0 then Inl CvError
        else Inr (map (\<lambda>y. map (\<lambda>x. interp src w h y x) [0..<w]) [0..<h]))"

text \<open>\<^verbatim>\<open>np.min\<close> and \<^verbatim>\<open>np.max\<close> of an array: an array without entries is a \<^verbatim>\<open>ValueError\<close>.\<close>

definition np_min :: "real list list \<Rightarrow> error + real" where
  "np_min a =
     (case concat a of
        [] \<Rightarrow> Inl (ValueError ''zero-size array to reduction operation minimum'')
      | x # xs \<Rightarrow> Inr (fold min xs x))"

definition np_max :: "real list list \<Rightarrow> error + real" where
  "np_max a =
     (case concat a of
        [] \<Rightarrow> Inl (ValueError ''zero-size array to reduction operation maximum'')
      | x # xs \<Rightarrow> Inr (fold max xs x))"

text \<open>
  The arithmetic of lines 97 to 100. The resized map is an array of single precision, and
  an operation of such an array with a scalar is carried out in single precision, the
  scalar being converted first; the sum of a scalar of single precision and the Python
  float \<^verbatim>\<open>eps\<close> is a double. No operation raises: a division by zero gives a value that is
  not finite (NaN for \<open>0 / 0\<close>, an infinity otherwise) and a warning.
\<close>

definition np_subtract :: "real \<Rightarrow> real \<Rightarrow> float_value" where
  "np_subtract a b = to_single (a - b)"

definition np_add :: "float_value \<Rightarrow> real \<Rightarrow> float_value" where
  "np_add d eps = (case d of Finite v \<Rightarrow> to_double (v + eps) | NonFinite \<Rightarrow> NonFinite)"

text \<open>
  The denominator is the sum of two numbers of which \<^verbatim>\<open>eps\<close> is finite: when it is not
  finite it is an infinity, by which a finite numerator divided gives zero.
\<close>

definition np_divide :: "float_value \<Rightarrow> float_value \<Rightarrow> float_value" where
  "np_divide q denom =
     (case q of
        NonFinite \<Rightarrow> NonFinite
      | Finite n \<Rightarrow>
          (case cast_single denom of
             NonFinite \<Rightarrow> Finite 0
           | Finite d \<Rightarrow> if d = 0 then NonFinite else to_single (n / d)))"

definition np_multiply :: "float_value \<Rightarrow> real \<Rightarrow> float_value" where
  "np_multiply q c = (case q of Finite v \<Rightarrow> to_single (v * c) | NonFinite \<Rightarrow> NonFinite)"

text \<open>
  \<^verbatim>\<open>astype("uint8")\<close> of a float: the fraction is dropped (towards zero) and the integer is
  reduced to eight bits. The conversion of a value that is not finite is not defined by
  the language the library is written in: the model leaves its result unspecified.
\<close>

definition astype_uint8 :: "float_value \<Rightarrow> uint8" where
  "astype_uint8 q =
     (case q of
        Finite v \<Rightarrow> word_of_int (if 0 \<le> v then \<lfloor>v\<rfloor> else \<lceil>v\<rceil>)
      | NonFinite \<Rightarrow> undefined)"

text \<open>Lines 97 to 99: the map after the division.\<close>

definition scale_heatmap :: "real list list \<Rightarrow> real \<Rightarrow> error + float_value list list" where
  "scale_heatmap heatmap eps =
     (case np_min heatmap of
        Inl e \<Rightarrow> Inl e
      | Inr mn \<Rightarrow>
     (let numer = map (map (\<lambda>v. np_subtract v mn)) heatmap
      in case np_max heatmap of
           Inl e \<Rightarrow> Inl e
         | Inr mx \<Rightarrow>
        (case np_min heatmap of
           Inl e \<Rightarrow> Inl e
         | Inr mn' \<Rightarrow>
        (let denom = np_add (np_subtract mx mn') eps
         in Inr (map (map (\<lambda>q. np_divide q denom)) numer)))))"

text \<open>Lines 97 to 100.\<close>

definition normalize_heatmap :: "real list list \<Rightarrow> real \<Rightarrow> error + uint8 list list" where
  "normalize_heatmap heatmap eps =
     (case scale_heatmap heatmap eps of
        Inl e \<Rightarrow> Inl e
      | Inr heatmap1 \<Rightarrow> Inr (map (map (\<lambda>q. astype_uint8 (np_multiply q 255))) heatmap1))"

subsection \<open>\<^verbatim>\<open>compute_heatmap\<close>\<close>

text \<open>
  Lines 72 to 103: from the target stage's output and the gradient to the heat map. An
  empty batch makes the index \<^verbatim>\<open>[0]\<close> fail; activations that are not of rank 4 make the
  mean over the axes 0 and 1 fail.
\<close>

definition empty_batch :: error where
  "empty_batch = InvalidArgumentError ''slice index 0 of dimension 0 out of bounds''"

definition invalid_reduction :: error where
  "invalid_reduction = InvalidArgumentError ''Invalid reduction dimension''"

definition heatmap_of ::
  "interpolation \<Rightarrow> tensor \<Rightarrow> tensor \<Rightarrow> tensor \<Rightarrow> real \<Rightarrow> error + uint8 list list" where
  "heatmap_of interp img convOutputs grads eps =
     (case (convOutputs, grads) of
        (Rank4 conv, Rank4 g) \<Rightarrow>
          (let guidedGrads = guided_grads conv g
           in case py_index conv 0 of
                Inl e \<Rightarrow> Inl empty_batch
              | Inr conv0 \<Rightarrow>
             (case py_index guidedGrads 0 of
                Inl e \<Rightarrow> Inl empty_batch
              | Inr guided0 \<Rightarrow>
             (let cam = class_activation_map conv0 guided0
              in case py_index (tensor_shape img) 2 of
                   Inl e \<Rightarrow> Inl e
                 | Inr w \<Rightarrow>
                (case py_index (tensor_shape img) 1 of
                   Inl e \<Rightarrow> Inl e
                 | Inr h \<Rightarrow>
                (case cv2_resize interp cam (w, h) of
                   Inl e \<Rightarrow> Inl e
                 | Inr heatmap \<Rightarrow> normalize_heatmap heatmap eps)))))
      | _ \<Rightarrow> Inl invalid_reduction)"

text \<open>
  Lines 56 to 69: the stages up to the target stage give \<^verbatim>\<open>convOutputs\<close>, the remaining
  stages give \<^verbatim>\<open>predictions\<close>, whose column \<^verbatim>\<open>classIdx\<close> is differentiated.
\<close>

definition compute_heatmap ::
  "tape \<Rightarrow> interpolation \<Rightarrow> store \<Rightarrow> GradCAM \<Rightarrow> tensor \<Rightarrow> int \<Rightarrow> real \<Rightarrow> error + uint8 list list" where
  "compute_heatmap tp interp s self img classIdx eps =
     (case get_layer (layers (model self)) (target_layer_name self) of
        Inl e \<Rightarrow> Inl e
      | Inr k \<Rightarrow>
     (case forward s (take (Suc k) (layers (model self))) img of
        Inl e \<Rightarrow> Inl e
      | Inr convOutputs \<Rightarrow>
     (case loss_of s (drop (Suc k) (layers (model self))) classIdx convOutputs of
        Inl e \<Rightarrow> Inl e
      | Inr loss \<Rightarrow>
     (let grads = tp (loss_of s (drop (Suc k) (layers (model self))) classIdx) convOutputs
      in heatmap_of interp img convOutputs grads eps))))"

subsection \<open>\<^verbatim>\<open>overlay_heatmap\<close>\<close>

text \<open>
  The floating-point arithmetic of the overlay is a parameter: the difference Python gives
  for \<^verbatim>\<open>a - b\<close> on two floats (double precision), and the value \<^verbatim>\<open>cv2.addWeighted\<close> computes
  for \<^verbatim>\<open>src1 * alpha + src2 * beta + gamma\<close> on one pair of entries. The library computes the
  latter in single precision, with or without fused operations depending on its build,
  and the value need not be finite.
\<close>

record arithmetic =
  float_sub :: "real \<Rightarrow> real \<Rightarrow> real"
  weighted :: "real \<Rightarrow> real \<Rightarrow> real \<Rightarrow> real \<Rightarrow> real \<Rightarrow> float_value"

text \<open>
  \<^verbatim>\<open>cv2.applyColorMap\<close> looks every value of the heat map up in a palette of 256 colours
  (a parameter); on a heat map without entries the process is killed by a signal.
\<close>

type_synonym palette = "uint8 \<Rightarrow> uint8 list"

definition applyColorMap :: "palette \<Rightarrow> uint8 list list \<Rightarrow> error + uint8 list list list" where
  "applyColorMap colormap heatmap =
     (if concat heatmap = [] then Inl ProcessKilled else Inr (map (map colormap) heatmap))"

text \<open>
  The conversion of a weighted sum to eight bits: the value is rounded to the nearest
  integer, halves to the even neighbour, and clipped to the range from 0 to 255. What a
  value that is not finite is converted to is left unspecified.
\<close>

definition saturate_uint8 :: "float_value \<Rightarrow> uint8" where
  "saturate_uint8 q =
     (case q of
        Finite v \<Rightarrow> word_of_int (max 0 (min 255 (cv_round v)))
      | NonFinite \<Rightarrow> undefined)"

text \<open>\<^verbatim>\<open>cv2.addWeighted\<close> refuses arrays of different sizes.\<close>

definition addWeighted ::
  "arithmetic \<Rightarrow> uint8 list list list \<Rightarrow> real \<Rightarrow> uint8 list list list \<Rightarrow> real \<Rightarrow> real
     \<Rightarrow> error + uint8 list list list" where
  "addWeighted ar src1 alpha src2 beta gamma =
     (if map (map length) src1 \<noteq> map (map length) src2 then Inl CvError
      else Inr (map2 (map2 (map2 (\<lambda>a b.
             saturate_uint8 (weighted ar (real (unat a)) alpha (real (unat b)) beta gamma))))
               src1 src2))"

definition overlay_heatmap ::
  "arithmetic \<Rightarrow> palette \<Rightarrow> uint8 list list \<Rightarrow> uint8 list list list \<Rightarrow> real
     \<Rightarrow> error + (uint8 list list list \<times> uint8 list list list)" where
  "overlay_heatmap ar colormap heatmap img alpha =
     (case applyColorMap colormap heatmap of
        Inl e \<Rightarrow> Inl e
      | Inr heatmap1 \<Rightarrow>
          (case addWeighted ar img alpha heatmap1 (float_sub ar 1 alpha) 0 of
             Inl e \<Rightarrow> Inl e
           | Inr output \<Rightarrow> Inr (heatmap1, output)))"

section \<open>The object and its state\<close>

text \<open>
  The state a query runs in: the store of variables and the fields of the object. The two
  methods assign neither to a field of \<^verbatim>\<open>self\<close> nor to a variable, so a call hands back the
  state it was given, together with its result.
\<close>

datatype query =
    Compute_heatmap tensor int real
  | Overlay_heatmap "uint8 list list" "uint8 list list list" real palette

datatype answer =
    Heatmap "error + uint8 list list"
  | Overlay "error + (uint8 list list list \<times> uint8 list list list)"

fun run_query ::
  "tape \<Rightarrow> interpolation \<Rightarrow> arithmetic \<Rightarrow> store \<times> GradCAM \<Rightarrow> query
     \<Rightarrow> (store \<times> GradCAM) \<times> answer" where
  "run_query tp interp ar (s, self) (Compute_heatmap img classIdx eps) =
     ((s, self), Heatmap (compute_heatmap tp interp s self img classIdx eps))"
| "run_query tp interp ar (s, self) (Overlay_heatmap heatmap img alpha colormap) =
     ((s, self), Overlay (overlay_heatmap ar colormap heatmap img alpha))"

fun run_queries ::
  "tape \<Rightarrow> interpolation \<Rightarrow> arithmetic \<Rightarrow> store \<times> GradCAM \<Rightarrow> query list
     \<Rightarrow> (store \<times> GradCAM) \<times> answer list" where
  "run_queries tp interp ar st [] = (st, [])"
| "run_queries tp interp ar st (q # qs) =
     (case run_query tp interp ar st q of
        (st1, a) \<Rightarrow> (case run_queries tp interp ar st1 qs of (st2, as) \<Rightarrow> (st2, a # as)))"

section \<open>Shapes\<close>

text \<open>A volume of \<open>H\<close> rows, \<open>W\<close> columns and \<open>C\<close> channels, and a batch of such volumes.\<close>

definition volume :: "nat \<Rightarrow> nat \<Rightarrow> nat \<Rightarrow> real list list list \<Rightarrow> bool" where
  "volume H W C t =
     (length t = H \<and> list_all (\<lambda>r. length r = W \<and> list_all (\<lambda>p. length p = C) r) t)"

definition batch :: "nat \<Rightarrow> nat \<Rightarrow> nat \<Rightarrow> nat \<Rightarrow> real list list list list \<Rightarrow> bool" where
  "batch B H W C t = (length t = B \<and> list_all (volume H W C) t)"

section \<open>An arithmetic of the overlay\<close>

text \<open>
  An instance of the arithmetic of the overlay, in IEEE 754: the weighted sum in single
  precision, with the two products and the two sums rounded one by one, and the
  difference of two doubles (which is finite for the operands it is used on here).
\<close>

definition ieee_weighted :: "real \<Rightarrow> real \<Rightarrow> real \<Rightarrow> real \<Rightarrow> real \<Rightarrow> float_value" where
  "ieee_weighted a alpha b beta gamma =
     single_op (+)
       (single_op (+)
          (single_op (*) (to_single a) (to_single alpha))
          (single_op (*) (to_single b) (to_single beta)))
       (to_single gamma)"

definition ieee_sub :: "real \<Rightarrow> real \<Rightarrow> real" where
  "ieee_sub a b = (case to_double (a - b) of Finite v \<Rightarrow> v | NonFinite \<Rightarrow> 0)"

definition ieee_arithmetic :: arithmetic where
  "ieee_arithmetic = \<lparr> float_sub = ieee_sub, weighted = ieee_weighted \<rparr>"

section \<open>A small classifier\<close>

text \<open>
  A convolution of one filter over windows of one pixel, a global average pooling and a
  softmax classifier of two classes over the single pooled feature. The kernel of the
  convolution is the variable at address 0, the kernel and the bias of the classifier are
  the variables at the addresses 1 and 2.
\<close>

definition conv1x1 :: "ndarray list \<Rightarrow> tensor \<Rightarrow> error + tensor" where
  "conv1x1 ws t = on_last_axis (dense_affine False ws) t"

definition pooling :: "ndarray list \<Rightarrow> tensor \<Rightarrow> error + tensor" where
  "pooling ws t =
     (case t of
        Rank4 vs \<Rightarrow> Inr (Rank2 (map (\<lambda>v. reduce_mean_01 v) vs))
      | Rank2 rows \<Rightarrow> Inl (InvalidArgumentError ''pooling needs an input of rank 4''))"

definition demo_conv :: layer where
  "demo_conv = \<lparr> name = ''conv'', output_shape = [None, Some 2, Some 2, Some 1],
       config = [(''name'', CStr ''conv'')], weights = [0], cls = Other conv1x1 \<rparr>"

definition demo_pool :: layer where
  "demo_pool = \<lparr> name = ''pool'', output_shape = [None, Some 1],
       config = [(''name'', CStr ''pool'')], weights = [], cls = Other pooling \<rparr>"

definition demo_dense :: layer where
  "demo_dense = \<lparr> name = ''dense'', output_shape = [None, Some 2],
       config = [(''name'', CStr ''dense''), (''units'', CInt 2),
                 (''activation'', CStr ''softmax''), (''use_bias'', CBool True)],
       weights = [1, 2], cls = Dense \<rparr>"

definition demo_model :: keras_model where
  "demo_model = \<lparr> layers = [demo_conv, demo_pool, demo_dense] \<rparr>"

definition demo_store :: store where
  "demo_store = [Mat [[1]], Mat [[1, 2]], Vec [0, 1]]"

text \<open>The stage the constructor derives from \<open>demo_dense\<close>, and the classifier it is put in.\<close>

definition demo_new_layer :: layer where
  "demo_new_layer = \<lparr> name = ''new_layer'', output_shape = [None, Some 2],
       config = [(''name'', CStr ''new_layer''), (''units'', CInt 2),
                 (''activation'', CFn Linear), (''use_bias'', CBool True)],
       weights = [3, 4], cls = Dense \<rparr>"

definition demo_cam :: GradCAM where
  "demo_cam = \<lparr> model = \<lparr> layers = [demo_conv, demo_pool, demo_new_layer] \<rparr>,
       target_layer_name = ''conv'' \<rparr>"

definition demo_store' :: store where
  "demo_store' = [Mat [[1]], Mat [[1, 2]], Vec [0, 1], Mat [[1, 2]], Vec [0, 1]]"

definition demo_image :: tensor where
  "demo_image = Rank4 [[[[1], [2]], [[3], [4]]]]"

text \<open>
  A gradient by forward differences: the entry at an index is the increase of the score
  when the activation at that index is increased by one. It is the gradient of every
  score that is an affine function of the activations, as the scores of the classifier
  above are.
\<close>

definition score_value :: "error + real \<Rightarrow> real" where
  "score_value r = (case r of Inl e \<Rightarrow> 0 | Inr v \<Rightarrow> v)"

definition bump :: "real list list list list \<Rightarrow> nat \<Rightarrow> nat \<Rightarrow> nat \<Rightarrow> nat \<Rightarrow> real list list list list" where
  "bump t b i j c =
     t[b := (t ! b)[i := (t ! b ! i)[j := (t ! b ! i ! j)[c := t ! b ! i ! j ! c + 1]]]]"

definition difference_tape :: tape where
  "difference_tape f t =
     (case t of
        Rank4 vs \<Rightarrow>
          Rank4 (map (\<lambda>b. map (\<lambda>i. map (\<lambda>j. map (\<lambda>c.
              score_value (f (Rank4 (bump vs b i j c))) - score_value (f (Rank4 vs)))
            [0 ..< length (vs ! b ! i ! j)]) [0 ..< length (vs ! b ! i)])
            [0 ..< length (vs ! b)]) [0 ..< length vs])
      | Rank2 rows \<Rightarrow>
          Rank2 (map (\<lambda>b. map (\<lambda>c.
              score_value (f (Rank2 (rows[b := (rows ! b)[c := rows ! b ! c + 1]])))
                - score_value (f (Rank2 rows)))
            [0 ..< length (rows ! b)]) [0 ..< length rows]))"

text \<open>The interpolation that repeats the nearest source value.\<close>

definition nearest :: interpolation where
  "nearest src w h y x = src ! (y * length src div h) ! (x * dim_hd src div w)"

text \<open>A stage whose output is of rank 4 with an unknown height and width.\<close>

definition demo_dynamic :: layer where
  "demo_dynamic = \<lparr> name = ''dynamic'', output_shape = [None, None, None, Some 1],
       config = [(''name'', CStr ''dynamic'')], weights = [], cls = Other (\<lambda>ws t. Inr t) \<rparr>"

text \<open>
  A convolution whose window covers the image, so that its output has one location, and
  the object whose classifier starts with it.
\<close>

definition conv_full :: "ndarray list \<Rightarrow> tensor \<Rightarrow> error + tensor" where
  "conv_full ws t =
     (case on_last_axis (dense_affine False ws) t of
        Inl e \<Rightarrow> Inl e
      | Inr (Rank4 vs) \<Rightarrow>
          Inr (Rank4 (map (\<lambda>v. [[map (\<lambda>c. sum_list (map (\<lambda>p. p ! c) (concat v)))
                                     [0 ..< dim_hd (concat v)]]]) vs))
      | Inr (Rank2 rows) \<Rightarrow> Inl (InvalidArgumentError ''convolution needs an input of rank 4''))"

definition demo_coarse :: layer where
  "demo_coarse = \<lparr> name = ''conv'', output_shape = [None, Some 1, Some 1, Some 1],
       config = [(''name'', CStr ''conv'')], weights = [0], cls = Other conv_full \<rparr>"

definition demo_cam_coarse :: GradCAM where
  "demo_cam_coarse = \<lparr> model = \<lparr> layers = [demo_coarse, demo_pool, demo_new_layer] \<rparr>,
       target_layer_name = ''conv'' \<rparr>"

text \<open>Activations and gradients of one volume of two rows, two columns and two channels.\<close>

definition demo_activations :: "real list list list list" where
  "demo_activations = [[[[1, - 1], [2, 0]], [[3, 1], [- 4, 2]]]]"

definition demo_grads :: "real list list list list" where
  "demo_grads = [[[[1, 1], [- 1, 1]], [[2, 2], [1, 1]]]]"

text \<open>
  A grey palette, a heat map of one row and an image of the same size; and the double
  nearest to three tenths.
\<close>

definition demo_palette :: palette where
  "demo_palette v = [v, v, v]"

definition demo_heatmap :: "uint8 list list" where
  "demo_heatmap = [[0, 255]]"

definition demo_picture :: "uint8 list list list" where
  "demo_picture = [[[10, 20, 30], [40, 50, 60]]]"

definition demo_alpha :: real where
  "demo_alpha = 5404319552844595 / 18014398509481984"

text \<open>A positive double below the smallest positive number of single precision.\<close>

definition demo_tiny :: real where
  "demo_tiny = 1 / 2 ^ 200"

text \<open>A second stage of rank 4, and a classifier with two such stages at different depths.\<close>

definition demo_conv2 :: layer where
  "demo_conv2 = \<lparr> name = ''conv2'', output_shape = [None, Some 2, Some 2, Some 1],
       config = [(''name'', CStr ''conv2'')], weights = [0], cls = Other conv1x1 \<rparr>"

definition demo_deep :: keras_model where
  "demo_deep = \<lparr> layers = [demo_conv, demo_conv2, demo_pool, demo_dense] \<rparr>"

definition demo_deep' :: keras_model where
  "demo_deep' = \<lparr> layers = [demo_conv, demo_conv2, demo_pool, demo_new_layer] \<rparr>"

section \<open>Unfolding the definitions on concrete inputs\<close>

lemmas demo_defs = demo_conv_def demo_pool_def demo_dense_def demo_model_def demo_store_def
  demo_new_layer_def demo_cam_def demo_store'_def demo_image_def nearest_def
  demo_dynamic_def pooling_def conv1x1_def conv_full_def demo_coarse_def demo_cam_coarse_def
  demo_activations_def demo_grads_def demo_palette_def demo_heatmap_def demo_picture_def
  demo_conv2_def demo_deep_def demo_deep'_def difference_tape_def bump_def score_value_def

lemmas init_defs = GradCAM_init_def linearize_def py_index_def dict_get_def Dense_init_def
  Dense_build_def set_weights_def read_weights_def use_bias_def dense_keys_def new_kernel_def
  new_bias_def find_target_layer_def no_4d_layer_def Model_def Let_def

lemmas query_defs = compute_heatmap_def heatmap_of_def loss_of_def layer_call_def dense_call_def
  read_weights_def use_bias_def matmul_row_def guided_grads_def cast_positive_def multiply4_def
  reduce_mean_01_def weighted_sum_def class_activation_map_def cv2_resize_def np_min_def
  np_max_def normalize_heatmap_def scale_heatmap_def np_subtract_def np_add_def np_divide_def
  np_multiply_def cast_single_def
  astype_uint8_def tf_index_def dim_hd_def py_index_def Let_def

section \<open>Construction fails on a final stage without an activation entry\<close>

lemma py_index_last: "xs \<noteq> [] \<Longrightarrow> py_index xs (- 1) = Inr (last xs)"
  by (cases xs rule: rev_cases) (simp_all add: py_index_def)

text \<open>
  C10. When the dict of the final stage has no entry \<^verbatim>\<open>'activation'\<close>, line 18 raises
  \<^verbatim>\<open>KeyError\<close>: construction fails with it whatever the target stage, the minimum size, the
  variables and the initializer are, so neither the linearization nor the search runs,
  and the classifier is not treated as a non-softmax one.
\<close>

theorem init_missing_activation:
  assumes "layers m \<noteq> []"
      and "map_of (config (last (layers m))) ''activation'' = None"
  shows "GradCAM_init ini s m target_layer k = Inl (KeyError ''activation'')"
  using assms by (simp add: GradCAM_init_def linearize_def py_index_last dict_get_def)

theorem init_missing_activation_witness:
  "layers \<lparr> layers = [demo_conv, demo_pool] \<rparr> \<noteq> []
   \<and> map_of (config (last (layers \<lparr> layers = [demo_conv, demo_pool] \<rparr>))) ''activation'' = None
   \<and> GradCAM_init (\<lambda>i. 0) demo_store \<lparr> layers = [demo_conv, demo_pool] \<rparr> None 1
       = Inl (KeyError ''activation'')"
  using init_missing_activation [of "\<lparr> layers = [demo_conv, demo_pool] \<rparr>" "\<lambda>i. 0" demo_store None 1]
  by (simp add: demo_pool_def)

section \<open>Rounding to a floating-point format\<close>

lemma ilog2_eqI:
  assumes "2 powi k \<le> x" and "x < 2 powi (k + 1)"
  shows "ilog2 x = k"
proof -
  have p: "(0::real) < 2 powi k" by simp
  with assms(1) have x: "0 < x" by linarith
  have a: "(2::real) powr real_of_int k = 2 powi k"
    by (rule powr_real_of_int') simp_all
  have b: "(2::real) powr real_of_int (k + 1) = 2 powi (k + 1)"
    by (rule powr_real_of_int') simp_all
  have iff: "\<lfloor>log 2 x\<rfloor> = k \<longleftrightarrow>
      2 powr real_of_int k \<le> x \<and> x < 2 powr real_of_int (k + 1)"
    using x by (intro floor_log_eq_powr_iff) simp_all
  have "2 powr real_of_int k \<le> x \<and> x < 2 powr real_of_int (k + 1)"
    unfolding a b using assms by blast
  with iff show ?thesis unfolding ilog2_def by blast
qed

lemma ieee_round_exp:
  assumes "x \<noteq> 0" and "max emin (ilog2 \<bar>x\<bar>) = k"
  shows "ieee_round p emin emax x =
     (if 2 powi (emax + 1) \<le> \<bar>real_of_int (cv_round (x / 2 powi (k - int p + 1))) * 2 powi (k - int p + 1)\<bar>
      then NonFinite
      else Finite (real_of_int (cv_round (x / 2 powi (k - int p + 1))) * 2 powi (k - int p + 1)))"
  unfolding ieee_round_def Let_def assms(2) using assms(1) by (simp only: if_False)

lemma ieee_round_at:
  assumes "2 powi k \<le> \<bar>x\<bar>" and "\<bar>x\<bar> < 2 powi (k + 1)" and "emin \<le> k"
  shows "ieee_round p emin emax x =
     (if 2 powi (emax + 1) \<le> \<bar>real_of_int (cv_round (x / 2 powi (k - int p + 1))) * 2 powi (k - int p + 1)\<bar>
      then NonFinite
      else Finite (real_of_int (cv_round (x / 2 powi (k - int p + 1))) * 2 powi (k - int p + 1)))"
proof (rule ieee_round_exp)
  have "(0::real) < 2 powi k" by simp
  with assms(1) have "0 < \<bar>x\<bar>" by linarith
  then show "x \<noteq> 0" by simp
  show "max emin (ilog2 \<bar>x\<bar>) = k"
    using ilog2_eqI [OF assms(1,2)] assms(3) by simp
qed

lemma cv_round_of_int: "cv_round (of_int n) = n"
  by (simp add: cv_round_def)

lemma ilog2_nat:
  assumes "0 < n" and "n < 2 ^ p"
  shows "0 \<le> ilog2 (real n)" and "ilog2 (real n) < int p"
proof -
  have "1 \<le> real n" using assms(1) by simp
  then have "0 \<le> log 2 (real n)" by simp
  then show "0 \<le> ilog2 (real n)" by (simp add: ilog2_def)
  have "log 2 (real n) < real p" using assms by (intro log2_of_power_less)
  then show "ilog2 (real n) < int p" by (simp add: ilog2_def floor_less_iff)
qed

lemma ieee_round_nat:
  assumes "n < 2 ^ p" and "emin \<le> 0" and "int p \<le> emax + 1"
  shows "ieee_round p emin emax (real n) = Finite (real n)"
proof (cases "n = 0")
  case True
  then show ?thesis by (simp add: ieee_round_def)
next
  case False
  then have n: "0 < n" by simp
  define k where "k = ilog2 (real n)"
  have k: "0 \<le> k" "k < int p" using ilog2_nat [OF n assms(1)] by (simp_all add: k_def)
  define d where "d = nat (int p - 1 - k)"
  have e: "max emin (ilog2 \<bar>real n\<bar>) = k" using k(1) assms(2) by (simp add: k_def)
  have u: "(2::real) powi (k - int p + 1) = inverse (2 ^ d)"
  proof -
    have "k - int p + 1 = - int d" using k(2) by (simp add: d_def)
    then show ?thesis by (simp add: power_int_minus)
  qed
  have q: "real n / inverse (2 ^ d) = real_of_int (int n * 2 ^ d)" by (simp add: field_simps)
  have r: "real_of_int (cv_round (real n / inverse (2 ^ d))) * inverse (2 ^ d) = real n"
    unfolding q cv_round_of_int by (simp add: field_simps)
  have "real n < 2 ^ p" using assms(1) by (metis of_nat_less_numeral_power_cancel_iff)
  also have "\<dots> = 2 powi (int p)" by simp
  also have "\<dots> \<le> 2 powi (emax + 1)" using assms(3) by (intro power_int_increasing) simp_all
  finally have b: "\<not> 2 powi (emax + 1) \<le> \<bar>real n\<bar>" by simp
  have "real n \<noteq> 0" using n by simp
  from ieee_round_exp [OF this e, of p emax] show ?thesis
    unfolding u r using b by (simp only: if_False)
qed

lemma to_single_uint8: "to_single (real (unat (a :: uint8))) = Finite (real (unat a))"
proof -
  have "unat a < 2 ^ LENGTH(8)" by (rule unsigned_less)
  then have "unat a < 2 ^ 24" by simp
  then show ?thesis unfolding to_single_def by (intro ieee_round_nat) simp_all
qed

lemma to_single_0: "to_single 0 = Finite 0"
  by (simp add: to_single_def ieee_round_def)

lemma to_single_1: "to_single 1 = Finite 1"
  using ieee_round_nat [of 1 24 "- 126" 127] by (simp add: to_single_def)

lemma to_double_0: "to_double 0 = Finite 0"
  by (simp add: to_double_def ieee_round_def)

lemma to_double_1: "to_double 1 = Finite 1"
  using ieee_round_nat [of 1 53 "- 1022" 1023] by (simp add: to_double_def)

lemma ieee_sub_1_1: "ieee_sub 1 1 = 0"
  by (simp add: ieee_sub_def to_double_0)

lemma ieee_sub_1_0: "ieee_sub 1 0 = 1"
  by (simp add: ieee_sub_def to_double_1)

lemma ieee_weighted_left:
  "ieee_weighted (real (unat (a :: uint8))) 1 (real (unat (b :: uint8))) 0 0 = Finite (real (unat a))"
  by (simp add: ieee_weighted_def single_op_def to_single_uint8 to_single_0 to_single_1
      del: of_nat_unat)

lemma ieee_weighted_right:
  "ieee_weighted (real (unat (a :: uint8))) 0 (real (unat (b :: uint8))) 1 0 = Finite (real (unat b))"
  by (simp add: ieee_weighted_def single_op_def to_single_uint8 to_single_0 to_single_1
      del: of_nat_unat)


lemma ilog2_le: "0 < x \<Longrightarrow> 2 powi ilog2 x \<le> x"
proof -
  assume x: "0 < x"
  have "real_of_int (ilog2 x) \<le> log 2 x" by (simp add: ilog2_def)
  then have "2 powr real_of_int (ilog2 x) \<le> x" using x by (simp add: powr_le_iff)
  moreover have "(2::real) powr real_of_int (ilog2 x) = 2 powi ilog2 x"
    by (rule powr_real_of_int') simp_all
  ultimately show ?thesis by simp
qed

lemma ilog2_ge: "2 powi k \<le> x \<Longrightarrow> k \<le> ilog2 x"
proof -
  assume a: "2 powi k \<le> x"
  have "(0::real) < 2 powi k" by simp
  with a have x: "0 < x" by linarith
  have "(2::real) powr real_of_int k = 2 powi k"
    by (rule powr_real_of_int') simp_all
  with a have "2 powr real_of_int k \<le> x" by simp
  then have "real_of_int k \<le> log 2 x" using x by (simp add: powr_le_iff)
  then show ?thesis by (simp add: ilog2_def le_floor_iff)
qed

lemma cv_round_ge: "real_of_int n \<le> y \<Longrightarrow> n \<le> cv_round y"
proof -
  assume "real_of_int n \<le> y"
  then have "n \<le> \<lfloor>y\<rfloor>" by (simp add: le_floor_iff)
  moreover have "\<lfloor>y\<rfloor> \<le> cv_round y" by (simp add: cv_round_def)
  ultimately show ?thesis by simp
qed

text \<open>
  Rounding does not go below a power of two of the normal range, and a number of at least
  the smallest positive number of the format is not rounded to zero.
\<close>

lemma ieee_round_lower:
  assumes "2 powi k \<le> x" and "emin \<le> k" and "0 < p"
  shows "ieee_round p emin emax x = NonFinite
       \<or> (\<exists>r. ieee_round p emin emax x = Finite r \<and> 2 powi k \<le> r)"
proof -
  have "(0::real) < 2 powi k" by simp
  with assms(1) have x: "0 < x" by linarith
  define e where "e = ilog2 x"
  have ke: "k \<le> e" using ilog2_ge [OF assms(1)] by (simp add: e_def)
  have m: "max emin (ilog2 \<bar>x\<bar>) = e" using x ke assms(2) by (simp add: e_def)
  define u :: real where "u = 2 powi (e - int p + 1)"
  have u: "0 < u" by (simp add: u_def)
  have "2 powi e = 2 powi (int p - 1) * u"
    unfolding u_def by (simp add: power_int_add [symmetric])
  also have "(2::real) powi (int p - 1) = real_of_int (2 ^ (p - 1))"
    using assms(3) by (simp add: power_int_def nat_diff_distrib')
  finally have pe: "2 powi e = real_of_int (2 ^ (p - 1)) * u" .
  have "2 powi e \<le> x" using ilog2_le [OF x] by (simp add: e_def)
  then have "real_of_int (2 ^ (p - 1)) \<le> x / u" using u pe by (simp add: field_simps)
  then have "2 ^ (p - 1) \<le> cv_round (x / u)" by (rule cv_round_ge)
  then have "real_of_int (2 ^ (p - 1)) \<le> real_of_int (cv_round (x / u))" by linarith
  then have "real_of_int (2 ^ (p - 1)) * u \<le> real_of_int (cv_round (x / u)) * u"
    using u by (simp only: mult_le_cancel_right_pos)
  then have "2 powi e \<le> real_of_int (cv_round (x / u)) * u" using pe by simp
  moreover have "(2::real) powi k \<le> 2 powi e" using ke by (intro power_int_increasing) simp_all
  ultimately have r: "2 powi k \<le> real_of_int (cv_round (x / u)) * u" by linarith
  have "x \<noteq> 0" using x by simp
  from ieee_round_exp [OF this m, of p emax] r show ?thesis
    unfolding u_def by (simp split: if_splits)
qed

lemma ieee_round_nonzero:
  assumes "2 powi (emin - int p + 1) \<le> x" and "0 < p"
  shows "ieee_round p emin emax x \<noteq> Finite 0"
proof -
  have "(0::real) < 2 powi (emin - int p + 1)" by simp
  with assms(1) have x: "0 < x" by linarith
  define e where "e = max emin (ilog2 \<bar>x\<bar>)"
  define u :: real where "u = 2 powi (e - int p + 1)"
  have u: "0 < u" by (simp add: u_def)
  have "u \<le> x"
  proof (cases "ilog2 x \<le> emin")
    case True
    then have "e = emin" using x by (simp add: e_def)
    with assms(1) show ?thesis by (simp add: u_def)
  next
    case False
    then have e: "e = ilog2 x" using x by (simp add: e_def)
    have "u \<le> 2 powi e" unfolding u_def using assms(2) by (intro power_int_increasing) simp_all
    also have "\<dots> \<le> x" unfolding e using x by (rule ilog2_le)
    finally show ?thesis .
  qed
  then have "real_of_int 1 \<le> x / u" using u by (simp add: field_simps)
  then have "1 \<le> cv_round (x / u)" by (rule cv_round_ge)
  then have "0 < real_of_int (cv_round (x / u)) * u" using u by simp
  then have r: "real_of_int (cv_round (x / u)) * u \<noteq> 0" by linarith
  have "x \<noteq> 0" using x by simp
  from ieee_round_exp [OF this e_def [symmetric], of p emax] r show ?thesis
    unfolding u_def by (simp split: if_splits)
qed

lemma cast_single_nonzero:
  assumes "2 powi (- 149) \<le> eps"
  shows "cast_single (to_double eps) \<noteq> Finite 0"
proof -
  from ieee_round_lower [OF assms, of "- 1022" 53 1023]
  consider "to_double eps = NonFinite"
    | r where "to_double eps = Finite r" "2 powi (- 149) \<le> r"
    by (auto simp: to_double_def)
  then show ?thesis
  proof cases
    case 1
    then show ?thesis by (simp add: cast_single_def)
  next
    case 2
    from 2(2) have "2 powi (- 126 - int 24 + 1) \<le> r" by simp
    then have "ieee_round 24 (- 126) 127 r \<noteq> Finite 0" by (rule ieee_round_nonzero) simp
    with 2(1) show ?thesis by (simp add: cast_single_def to_single_def)
  qed
qed

text \<open>Numbers that are rounded to themselves.\<close>

lemma to_single_quarter: "to_single (1 / 4) = Finite (1 / 4)"
  unfolding to_single_def
  by (subst ieee_round_at [of "- 2"]) (simp_all add: cv_round_def power_int_minus)

lemma to_single_half: "to_single (1 / 2) = Finite (1 / 2)"
  unfolding to_single_def
  by (subst ieee_round_at [of "- 1"]) (simp_all add: cv_round_def power_int_minus)

lemma to_single_three_quarters: "to_single (3 / 4) = Finite (3 / 4)"
  unfolding to_single_def
  by (subst ieee_round_at [of "- 1"]) (simp_all add: cv_round_def power_int_minus)

lemma to_single_three_halves: "to_single (3 / 2) = Finite (3 / 2)"
  unfolding to_single_def
  by (subst ieee_round_at [of "0"]) (simp_all add: cv_round_def power_int_minus)

lemma to_single_two: "to_single 2 = Finite 2"
  unfolding to_single_def
  by (subst ieee_round_at [of "1"]) (simp_all add: cv_round_def power_int_minus)

lemma to_single_scaled_quarter: "to_single (255 / 4) = Finite (255 / 4)"
  unfolding to_single_def
  by (subst ieee_round_at [of "5"]) (simp_all add: cv_round_def power_int_minus)

lemma to_single_scaled_half: "to_single (255 / 2) = Finite (255 / 2)"
  unfolding to_single_def
  by (subst ieee_round_at [of "6"]) (simp_all add: cv_round_def power_int_minus)

lemma to_single_scaled_three_quarters: "to_single (765 / 4) = Finite (765 / 4)"
  unfolding to_single_def
  by (subst ieee_round_at [of "7"]) (simp_all add: cv_round_def power_int_minus)

lemma to_double_two: "to_double 2 = Finite 2"
  unfolding to_double_def
  by (subst ieee_round_at [of 1]) (simp_all add: cv_round_def power_int_minus)

lemma to_double_half: "to_double (1 / 2) = Finite (1 / 2)"
  unfolding to_double_def
  by (subst ieee_round_at [of "- 1"]) (simp_all add: cv_round_def power_int_minus)

lemmas rounding = to_single_0 to_single_1 to_single_quarter to_single_half
  to_single_three_quarters to_single_three_halves to_single_two to_single_scaled_quarter
  to_single_scaled_half to_single_scaled_three_quarters to_double_half to_double_two

section \<open>Normalisation of a constant map\<close>

lemma np_min_le: "np_min a = Inr mn \<Longrightarrow> v \<in> set (concat a) \<Longrightarrow> mn \<le> v"
proof -
  assume a: "np_min a = Inr mn" and v: "v \<in> set (concat a)"
  then obtain x xs where c: "concat a = x # xs" by (cases "concat a") auto
  with a have "mn = Min (set (x # xs))"
    by (simp add: np_min_def Min.set_eq_fold del: set_simps)
  with v c show ?thesis by (metis List.finite_set Min_le)
qed

lemma np_max_ge: "np_max a = Inr mx \<Longrightarrow> v \<in> set (concat a) \<Longrightarrow> v \<le> mx"
proof -
  assume a: "np_max a = Inr mx" and v: "v \<in> set (concat a)"
  then obtain x xs where c: "concat a = x # xs" by (cases "concat a") auto
  with a have "mx = Max (set (x # xs))"
    by (simp add: np_max_def Max.set_eq_fold del: set_simps)
  with v c show ?thesis by (metis List.finite_set Max_ge)
qed

lemma in_concat: "r \<in> set a \<Longrightarrow> v \<in> set r \<Longrightarrow> v \<in> set (concat a)"
  by auto

lemma constant_map:
  assumes "np_min hm = Inr mn" and "np_max hm = Inr mx" and "mx = mn"
      and "r \<in> set hm" and "v \<in> set r"
  shows "v = mn"
  using np_min_le [OF assms(1) in_concat [OF assms(4,5)]]
    np_max_ge [OF assms(2) in_concat [OF assms(4,5)]] assms(3)
  by simp

text \<open>
  On a constant map every numerator is zero and the denominator is the double nearest to
  \<^verbatim>\<open>eps\<close>, which the division converts to single precision.
\<close>

lemma scale_heatmap_constant:
  assumes "np_min hm = Inr mn" and "np_max hm = Inr mx" and "mx = mn"
  shows "scale_heatmap hm eps = Inr (map (map (\<lambda>v. np_divide (Finite 0) (to_double eps))) hm)"
proof -
  have z: "np_subtract mn mn = Finite 0" by (simp add: np_subtract_def to_single_0)
  have "scale_heatmap hm eps =
      Inr (map (map (\<lambda>v. np_divide (np_subtract v mn) (to_double eps))) hm)"
    using assms z by (simp add: scale_heatmap_def Let_def comp_def np_add_def)
  moreover have "map (map (\<lambda>v. np_divide (np_subtract v mn) (to_double eps))) hm
      = map (map (\<lambda>v. np_divide (Finite 0) (to_double eps))) hm"
    using constant_map [OF assms] z by (intro map_cong refl) simp
  ultimately show ?thesis by simp
qed

lemma np_divide_zero:
  "np_divide (Finite 0) denom = (if cast_single denom = Finite 0 then NonFinite else Finite 0)"
  by (simp add: np_divide_def to_single_0 split: float_value.splits)

text \<open>
  When \<^verbatim>\<open>eps\<close> is so small that its conversion to single precision is zero, the division is
  \<open>0 / 0\<close>: no entry of the map is finite after line 99.
\<close>

lemma scale_heatmap_constant_underflow:
  assumes "np_min hm = Inr mn" and "np_max hm = Inr mx" and "mx = mn"
      and "cast_single (to_double eps) = Finite 0"
  shows "scale_heatmap hm eps = Inr (map (map (\<lambda>v. NonFinite)) hm)"
  using scale_heatmap_constant [OF assms(1-3), of eps] assms(4) by (simp add: np_divide_zero)

lemma ilog2_tiny: "ilog2 \<bar>demo_tiny\<bar> = - 200"
  by (rule ilog2_eqI) (simp_all add: demo_tiny_def power_int_minus field_simps)

lemma cast_single_tiny: "cast_single (to_double demo_tiny) = Finite 0"
proof -
  have ne: "demo_tiny \<noteq> 0" by (simp add: demo_tiny_def)
  have md: "max (- 1022) (ilog2 \<bar>demo_tiny\<bar>) = - 200" by (simp add: ilog2_tiny)
  have ms: "max (- 126) (ilog2 \<bar>demo_tiny\<bar>) = - 126" by (simp add: ilog2_tiny)
  have d: "to_double demo_tiny = Finite demo_tiny"
    unfolding to_double_def ieee_round_exp [OF ne md]
    by (simp add: demo_tiny_def cv_round_def power_int_minus)
  have s: "to_single demo_tiny = Finite 0"
    unfolding to_single_def ieee_round_exp [OF ne ms]
    by (simp add: demo_tiny_def cv_round_def power_int_minus)
  from d s show ?thesis by (simp add: cast_single_def)
qed

text \<open>
  C4, as stated, fails: \<open>eps > 0\<close> does not keep the division from being a division by
  zero. For the positive \<open>eps = 2\<^sup>-\<^sup>2\<^sup>0\<^sup>0\<close> and a constant map, the denominator in single
  precision is zero and every quotient is \<open>0 / 0\<close>, which is not finite (NaN).
\<close>

theorem normalize_constant_underflow:
  "0 < demo_tiny
   \<and> np_min [[3, 3], [3, 3]] = Inr 3 \<and> np_max [[3, 3], [3, 3]] = Inr 3
   \<and> scale_heatmap [[3, 3], [3, 3]] demo_tiny
       = Inr [[NonFinite, NonFinite], [NonFinite, NonFinite]]"
proof -
  have "np_min [[3, 3], [3, 3]] = Inr 3" "np_max [[3, 3], [3, 3]] = Inr 3"
    by (simp_all add: np_min_def np_max_def)
  from scale_heatmap_constant_underflow [OF this refl cast_single_tiny] this
  show ?thesis by (simp add: demo_tiny_def)
qed

text \<open>
  C4, amended. For \<open>eps \<ge> 2\<^sup>-\<^sup>1\<^sup>2\<^sup>6\<close> (the smallest positive normal number of single
  precision, about \<^verbatim>\<open>1.2e-38\<close>; the default \<open>10\<^sup>-\<^sup>8\<close> is far above it) and a resized map
  whose maximum equals its minimum, the normalisation returns a result (no error is
  signalled); every entry of the map after line 99 is the quotient of zero by \<^verbatim>\<open>eps\<close>
  alone, which is finite (the division is no division by zero and gives no NaN) and equal
  to zero; and the heat map is zero everywhere.
\<close>

theorem normalize_constant:
  assumes "1 / 2 ^ 126 \<le> eps" and "np_min hm = Inr mn" and "np_max hm = Inr mx" and "mx = mn"
  shows "scale_heatmap hm eps = Inr (map (map (\<lambda>v. np_divide (Finite 0) (to_double eps))) hm)
       \<and> scale_heatmap hm eps = Inr (map (map (\<lambda>v. Finite 0)) hm)
       \<and> normalize_heatmap hm eps = Inr (map (map (\<lambda>v. 0)) hm)"
proof -
  note 1 = scale_heatmap_constant [OF assms(2-4), of eps]
  have "(1::real) / 2 ^ 149 \<le> 1 / 2 ^ 126" by simp
  with assms(1) have "1 / 2 ^ 149 \<le> eps" by linarith
  then have "2 powi (- 149) \<le> eps" by (simp add: power_int_minus field_simps)
  then have "cast_single (to_double eps) \<noteq> Finite 0" by (rule cast_single_nonzero)
  then have q: "np_divide (Finite 0) (to_double eps) = Finite 0" by (simp add: np_divide_zero)
  have 2: "scale_heatmap hm eps = Inr (map (map (\<lambda>v. Finite 0)) hm)"
    using 1 q by simp
  have 3: "normalize_heatmap hm eps = Inr (map (map (\<lambda>v. 0)) hm)"
    using 2 by (simp add: normalize_heatmap_def np_multiply_def astype_uint8_def comp_def
        to_single_0)
  from 1 2 3 show ?thesis by simp
qed

theorem normalize_constant_witness:
  "(1::real) / 2 ^ 126 \<le> 1 / 128
   \<and> np_min [[3, 3], [3, 3]] = Inr 3 \<and> np_max [[3, 3], [3, 3]] = Inr 3
   \<and> scale_heatmap [[3, 3], [3, 3]] (1 / 128) = Inr [[Finite 0, Finite 0], [Finite 0, Finite 0]]
   \<and> normalize_heatmap [[3, 3], [3, 3]] (1 / 128) = Inr [[0, 0], [0, 0]]"
  using normalize_constant [of "1 / 128" "[[3, 3], [3, 3]]" 3 3, THEN conjunct2]
  by (simp add: np_min_def np_max_def)

section \<open>The class index\<close>

lemma loss_of_Rank2:
  assumes "forward s rest conv = Inr (Rank2 rows)"
  shows "loss_of s rest i conv =
     (case tf_index (dim_hd rows) i of
        Inl e \<Rightarrow> Inl e
      | Inr j \<Rightarrow> Inr (sum_list (map (\<lambda>r. r ! j) rows)))"
  using assms by (simp add: loss_of_def split: sum.splits)

text \<open>The steps after the gradient never fail with the error of the class slice.\<close>

lemma normalize_heatmap_error:
  "normalize_heatmap hm eps = Inl e \<Longrightarrow> e \<noteq> slice_out_of_bounds"
  by (auto simp: normalize_heatmap_def scale_heatmap_def np_min_def np_max_def Let_def
      slice_out_of_bounds_def split: sum.splits list.splits)

lemma heatmap_of_error:
  "heatmap_of interp img conv g eps \<noteq> Inl slice_out_of_bounds"
proof
  assume a: "heatmap_of interp img conv g eps = Inl slice_out_of_bounds"
  then show False
    using normalize_heatmap_error [of _ eps slice_out_of_bounds]
    by (auto simp: heatmap_of_def Let_def py_index_def cv2_resize_def empty_batch_def
        invalid_reduction_def slice_out_of_bounds_def
        split: tensor.splits sum.splits if_splits prod.splits)
qed

text \<open>
  C7, as stated, fails: the program has no check of the class index of its own, and
  \<^verbatim>\<open>predictions[:, classIdx]\<close> accepts a negative index, which counts from the end. On the
  classifier of two classes above, the class index \<open>-1\<close> is below 0 and the query returns
  the heat map of class 1.
\<close>

theorem negative_class_index_accepted:
  "compute_heatmap difference_tape nearest demo_store' demo_cam demo_image (- 1) (1 / 2)
     = Inr [[0, 63], [127, 191]]
   \<and> compute_heatmap difference_tape nearest demo_store' demo_cam demo_image 1 (1 / 2)
     = Inr [[0, 63], [127, 191]]"
  by (simp add: demo_defs query_defs upt_rec rounding)

text \<open>
  C7, amended. Let the target stage exist, the stages up to it succeed on the image and
  the remaining stages yield the predictions of a batch that is not empty, over \<open>n\<close>
  classes. Then:
  \<^item> a class index below \<open>-2\<^sup>6\<^sup>3\<close> or of at least \<open>2\<^sup>6\<^sup>3 - 1\<close> makes \<^verbatim>\<open>compute_heatmap\<close> fail with
    the \<^verbatim>\<open>ValueError\<close> of the conversion of the slice bounds to 64 bits;
  \<^item> for any other class index, \<^verbatim>\<open>compute_heatmap\<close> fails with the error of the slice
    operation of the tensor library exactly when \<open>classIdx \<ge> n\<close> or \<open>classIdx < -n\<close>;
  \<^item> a class index with \<open>-n \<le> classIdx < 0\<close> is not refused: the score differentiated is
    that of class \<open>n + classIdx\<close>, and the query goes on with the gradient of that score
    (the steps after the gradient may still fail for reasons of their own).
\<close>

theorem class_index_range:
  assumes "get_layer (layers (model self)) (target_layer_name self) = Inr k"
      and "forward s (take (Suc k) (layers (model self))) img = Inr conv"
      and "forward s (drop (Suc k) (layers (model self))) conv = Inr (Rank2 rows)"
      and "rows \<noteq> []"
  shows "(classIdx < - (2 ^ 63) \<or> 2 ^ 63 - 1 \<le> classIdx \<longrightarrow>
            compute_heatmap tp interp s self img classIdx eps
              = Inl (ValueError ''slice bound out of range for int64''))
       \<and> (- (2 ^ 63) \<le> classIdx \<and> classIdx < 2 ^ 63 - 1 \<longrightarrow>
            (compute_heatmap tp interp s self img classIdx eps = Inl slice_out_of_bounds
               \<longleftrightarrow> int (dim_hd rows) \<le> classIdx \<or> classIdx < - int (dim_hd rows)))
       \<and> (- (2 ^ 63) \<le> classIdx \<and> - int (dim_hd rows) \<le> classIdx \<and> classIdx < 0 \<longrightarrow>
            loss_of s (drop (Suc k) (layers (model self))) classIdx conv =
              Inr (sum_list (map (\<lambda>r. r ! nat (int (dim_hd rows) + classIdx)) rows))
          \<and> compute_heatmap tp interp s self img classIdx eps =
              heatmap_of interp img conv
                (tp (loss_of s (drop (Suc k) (layers (model self))) classIdx) conv) eps)"
proof -
  let ?rest = "drop (Suc k) (layers (model self))"
  let ?n = "int (dim_hd rows)"
  note loss = loss_of_Rank2 [OF assms(3), of classIdx]
  have ch: "compute_heatmap tp interp s self img classIdx eps =
      (case loss_of s ?rest classIdx conv of
         Inl e \<Rightarrow> Inl e
       | Inr v \<Rightarrow> heatmap_of interp img conv (tp (loss_of s ?rest classIdx) conv) eps)"
    using assms(1,2) by (simp add: compute_heatmap_def Let_def split: sum.splits)
  have 1: "compute_heatmap tp interp s self img classIdx eps
              = Inl (ValueError ''slice bound out of range for int64'')"
    if "classIdx < - (2 ^ 63) \<or> 2 ^ 63 - 1 \<le> classIdx"
    using that by (simp add: ch loss tf_index_def)
  have 2: "compute_heatmap tp interp s self img classIdx eps = Inl slice_out_of_bounds
               \<longleftrightarrow> ?n \<le> classIdx \<or> classIdx < - ?n"
    if r: "- (2 ^ 63) \<le> classIdx \<and> classIdx < 2 ^ 63 - 1"
  proof (cases "?n \<le> classIdx \<or> classIdx < - ?n")
    case True
    with r have "tf_index (dim_hd rows) classIdx = Inl slice_out_of_bounds"
      by (auto simp: tf_index_def)
    with True show ?thesis by (simp add: ch loss)
  next
    case False
    with r have "\<exists>j. tf_index (dim_hd rows) classIdx = Inr j"
      by (auto simp: tf_index_def)
    with False show ?thesis using heatmap_of_error by (auto simp: ch loss)
  qed
  have 3: "loss_of s ?rest classIdx conv =
              Inr (sum_list (map (\<lambda>r. r ! nat (?n + classIdx)) rows))
          \<and> compute_heatmap tp interp s self img classIdx eps =
              heatmap_of interp img conv (tp (loss_of s ?rest classIdx) conv) eps"
    if r: "- (2 ^ 63) \<le> classIdx \<and> - ?n \<le> classIdx \<and> classIdx < 0"
  proof -
    from r have "tf_index (dim_hd rows) classIdx = Inr (nat (?n + classIdx))"
      by (auto simp: tf_index_def)
    then show ?thesis by (simp add: ch loss)
  qed
  from 1 2 3 show ?thesis by blast
qed

theorem class_index_range_witness:
  "get_layer (layers (model demo_cam)) (target_layer_name demo_cam) = Inr 0
   \<and> forward demo_store' (take (Suc 0) (layers (model demo_cam))) demo_image = Inr demo_image
   \<and> forward demo_store' (drop (Suc 0) (layers (model demo_cam))) demo_image
       = Inr (Rank2 [[5 / 2, 6]])
   \<and> [[5 / 2, 6 :: real]] \<noteq> []
   \<and> - (2 ^ 63) \<le> (2 :: int) \<and> (2 :: int) < 2 ^ 63 - 1
   \<and> int (dim_hd [[5 / 2, 6 :: real]]) \<le> 2
   \<and> compute_heatmap difference_tape nearest demo_store' demo_cam demo_image 2 (1 / 2)
       = Inl slice_out_of_bounds"
  using class_index_range [of demo_cam 0 demo_store' demo_image demo_image "[[5 / 2, 6]]" 2
      difference_tape nearest "1 / 2"]
  by (simp add: demo_defs query_defs upt_rec)

section \<open>Guided gradients, channel weights and the class activation map\<close>

lemma volumeD:
  assumes "volume H W C t"
  shows "length t = H" and "i < H \<Longrightarrow> length (t ! i) = W"
    and "i < H \<Longrightarrow> j < W \<Longrightarrow> length (t ! i ! j) = C"
  using assms by (auto simp: volume_def list_all_length)

lemma batchD:
  assumes "batch B H W C t"
  shows "length t = B" and "b < B \<Longrightarrow> volume H W C (t ! b)"
  using assms by (auto simp: batch_def list_all_length)

lemma guided_grads_nth:
  assumes "batch B H W C conv" and "batch B H W C g"
      and "b < B" and "i < H" and "j < W" and "c < C"
  shows "guided_grads conv g ! b ! i ! j ! c =
           (if 0 < conv ! b ! i ! j ! c \<and> 0 < g ! b ! i ! j ! c then g ! b ! i ! j ! c else 0)"
proof -
  note vc = batchD(2) [OF assms(1) assms(3)] and vg = batchD(2) [OF assms(2) assms(3)]
  have l: "length conv = B" "length g = B"
    "length (conv ! b) = H" "length (g ! b) = H"
    "length (conv ! b ! i) = W" "length (g ! b ! i) = W"
    "length (conv ! b ! i ! j) = C" "length (g ! b ! i ! j) = C"
    using batchD(1) [OF assms(1)] batchD(1) [OF assms(2)]
      volumeD [OF vc] volumeD [OF vg] assms(4-6) by simp_all
  show ?thesis
    using l assms(3-6)
    by (simp add: guided_grads_def multiply4_def cast_positive_def Let_def)
qed

lemma guided_grads_volume:
  assumes "batch B H W C conv" and "batch B H W C g" and "b < B"
  shows "volume H W C (guided_grads conv g ! b)"
proof -
  note vc = batchD(2) [OF assms(1) assms(3)] and vg = batchD(2) [OF assms(2) assms(3)]
  have l: "length conv = B" "length g = B"
    using batchD(1) [OF assms(1)] batchD(1) [OF assms(2)] by simp_all
  have gb: "guided_grads conv g ! b =
      map2 (map2 (map2 (*)))
        (map2 (map2 (map2 (*))) (map (map (map (\<lambda>v. of_bool (v > 0)))) (conv ! b))
           (map (map (map (\<lambda>v. of_bool (v > 0)))) (g ! b)))
        (g ! b)"
    using l assms(3) by (simp add: guided_grads_def multiply4_def cast_positive_def Let_def)
  show ?thesis
    unfolding gb volume_def list_all_length
    using volumeD [OF vc] volumeD [OF vg] by simp
qed

lemma sum_list_map_concat:
  "sum_list (map f (concat t)) = sum_list (map (\<lambda>r. sum_list (map f r)) t)"
  by (induction t) simp_all

lemma sum_list_concat_nth:
  assumes "length t = H" and "\<And>i. i < H \<Longrightarrow> length (t ! i) = W"
  shows "sum_list (map f (concat t)) = (\<Sum>i<H. \<Sum>j<W. f (t ! i ! j))"
proof -
  have "sum_list (map f (concat t)) = sum_list (map (\<lambda>r. sum_list (map f r)) t)"
    by (rule sum_list_map_concat)
  also have "\<dots> = (\<Sum>i<H. sum_list (map f (t ! i)))"
    using assms(1) by (simp add: sum_list_sum_nth atLeast0LessThan)
  also have "\<dots> = (\<Sum>i<H. \<Sum>j<W. f (t ! i ! j))"
    using assms(2) by (intro sum.cong refl) (simp add: sum_list_sum_nth atLeast0LessThan)
  finally show ?thesis .
qed

lemma length_concat_volume:
  assumes "length t = H" and "\<And>i. i < H \<Longrightarrow> length (t ! i) = W"
  shows "length (concat t) = H * W"
proof -
  have "map length t = replicate H W"
    using assms by (intro nth_equalityI) simp_all
  then show ?thesis by (simp add: length_concat sum_list_replicate)
qed

lemma dim_hd_concat_volume:
  assumes "volume H W C t" and "0 < H" and "0 < W"
  shows "dim_hd (concat t) = C"
proof -
  from assms obtain r rs where t: "t = r # rs" by (cases t) (auto simp: volume_def)
  with assms obtain p ps where r: "r = p # ps" by (cases r) (auto simp: volume_def)
  from assms(1) t r have "length p = C" by (simp add: volume_def)
  with t r show ?thesis by (simp add: dim_hd_def)
qed

lemma reduce_mean_01_nth:
  assumes "volume H W C t" and "0 < H" and "0 < W" and "c < C"
  shows "reduce_mean_01 t ! c = (\<Sum>i<H. \<Sum>j<W. t ! i ! j ! c) / real (H * W)"
  using assms dim_hd_concat_volume [OF assms(1-3)]
    sum_list_concat_nth [of t H W "\<lambda>p. p ! c"] length_concat_volume [of t H W]
    volumeD(1,2) [OF assms(1)]
  by (simp add: reduce_mean_01_def)

lemma length_reduce_mean_01:
  assumes "volume H W C t" and "0 < H" and "0 < W"
  shows "length (reduce_mean_01 t) = C"
  using dim_hd_concat_volume [OF assms] by (simp add: reduce_mean_01_def)

lemma sum_list_map2_nth:
  assumes "length ws = C" and "length p = C"
  shows "sum_list (map2 (*) ws p) = (\<Sum>c<C. ws ! c * (p ! c :: real))"
  using assms by (simp add: sum_list_sum_nth atLeast0LessThan)

lemma class_activation_map_nth:
  assumes "volume H W C conv0" and "volume H W C gg" and "0 < H" and "0 < W"
      and "i < H" and "j < W"
  shows "class_activation_map conv0 gg ! i ! j =
           (\<Sum>c<C. reduce_mean_01 gg ! c * conv0 ! i ! j ! c)"
  using volumeD [OF assms(1)] assms(5,6) length_reduce_mean_01 [OF assms(2-4)]
  by (simp add: class_activation_map_def weighted_sum_def Let_def sum_list_map2_nth)

text \<open>
  C1. For activations and gradients of the same shape (\<open>B\<close> volumes of \<open>H\<close> rows, \<open>W\<close>
  columns and \<open>C\<close> channels, none of these extents empty): every guided gradient is the
  gradient where the activation and the gradient are both strictly positive, and zero
  elsewhere; the weight of a channel is the mean of the guided gradients of the first
  volume over its rows and columns; the class activation map at a location is the sum
  over the channels of the weight times the activation.
\<close>

theorem guided_weights_cam:
  assumes "batch B H W C convOutputs" and "batch B H W C grads"
      and "0 < B" and "0 < H" and "0 < W"
  shows "(\<forall>b<B. \<forall>i<H. \<forall>j<W. \<forall>c<C.
            guided_grads convOutputs grads ! b ! i ! j ! c =
              (if 0 < convOutputs ! b ! i ! j ! c \<and> 0 < grads ! b ! i ! j ! c
               then grads ! b ! i ! j ! c else 0))
       \<and> (\<forall>c<C. reduce_mean_01 (guided_grads convOutputs grads ! 0) ! c =
              (\<Sum>i<H. \<Sum>j<W. guided_grads convOutputs grads ! 0 ! i ! j ! c) / real (H * W))
       \<and> (\<forall>i<H. \<forall>j<W.
            class_activation_map (convOutputs ! 0) (guided_grads convOutputs grads ! 0) ! i ! j =
              (\<Sum>c<C. reduce_mean_01 (guided_grads convOutputs grads ! 0) ! c
                        * convOutputs ! 0 ! i ! j ! c))"
proof -
  have vg: "volume H W C (guided_grads convOutputs grads ! 0)"
    using guided_grads_volume [OF assms(1,2,3)] .
  have vc: "volume H W C (convOutputs ! 0)"
    using batchD(2) [OF assms(1) assms(3)] .
  show ?thesis
    using guided_grads_nth [OF assms(1,2)] reduce_mean_01_nth [OF vg assms(4,5)]
      class_activation_map_nth [OF vc vg assms(4,5)]
    by simp
qed

theorem guided_weights_cam_witness:
  "batch 1 2 2 2 demo_activations \<and> batch 1 2 2 2 demo_grads
   \<and> guided_grads demo_activations demo_grads = [[[[1, 0], [0, 0]], [[2, 2], [0, 1]]]]
   \<and> reduce_mean_01 (guided_grads demo_activations demo_grads ! 0) = [3 / 4, 3 / 4]
   \<and> class_activation_map (demo_activations ! 0) (guided_grads demo_activations demo_grads ! 0)
       = [[0, 3 / 2], [3, - 3 / 2]]"
  using guided_weights_cam [of 1 2 2 2 demo_activations demo_grads]
  by (simp add: demo_defs query_defs batch_def volume_def upt_rec)

section \<open>The shape of the heat map\<close>

lemma py_index_0: "xs \<noteq> [] \<Longrightarrow> py_index xs 0 = Inr (xs ! 0)"
  by (simp add: py_index_def)

lemma cv2_resize_shape:
  assumes "concat src \<noteq> []" and "0 < w" and "0 < h"
  shows "\<exists>r. cv2_resize interp src (w, h) = Inr r \<and> length r = h
           \<and> (\<forall>row\<in>set r. length row = w) \<and> concat r \<noteq> []"
proof -
  have "[0..<h] \<noteq> []" "[0..<w] \<noteq> []" using assms by simp_all
  then show ?thesis using assms by (auto simp: cv2_resize_def)
qed

lemma normalize_heatmap_shape:
  assumes "concat a \<noteq> []"
  shows "\<exists>hm. normalize_heatmap a eps = Inr hm \<and> map length hm = map length a"
proof -
  from assms obtain x xs where "concat a = x # xs" by (cases "concat a") auto
  then show ?thesis
    by (simp add: normalize_heatmap_def scale_heatmap_def np_min_def np_max_def Let_def
        comp_def)
qed

lemma class_activation_map_nonempty:
  assumes "volume H W C conv0" and "0 < H" and "0 < W"
  shows "concat (class_activation_map conv0 gg) \<noteq> []"
proof -
  from assms obtain r rs where t: "conv0 = r # rs" by (cases conv0) (auto simp: volume_def)
  with assms have "r \<noteq> []" by (auto simp: volume_def)
  with t show ?thesis by (simp add: class_activation_map_def weighted_sum_def Let_def)
qed

lemma uint8_le_255: "unat (v :: uint8) \<le> 255"
proof -
  have "unat v < 2 ^ LENGTH(8)" by (rule unsigned_less)
  then show ?thesis by simp
qed

lemma heatmap_of_shape:
  assumes "batch B h w C conv" and "batch B h w C g" and "0 < B" and "0 < h" and "0 < w"
      and "tensor_shape img = [n, H, W, Ch]" and "0 < H" and "0 < W"
  shows "\<exists>hm. heatmap_of interp img (Rank4 conv) (Rank4 g) eps = Inr hm
           \<and> length hm = H \<and> (\<forall>r\<in>set hm. length r = W)"
proof -
  have c0: "conv \<noteq> []" using batchD(1) [OF assms(1)] assms(3) by auto
  have "length (guided_grads conv g) = B"
    using batchD(1) [OF assms(1)] batchD(1) [OF assms(2)]
    by (simp add: guided_grads_def multiply4_def cast_positive_def Let_def)
  then have g0: "guided_grads conv g \<noteq> []" using assms(3) by auto
  have vc: "volume h w C (conv ! 0)" using batchD(2) [OF assms(1) assms(3)] .
  let ?cam = "class_activation_map (conv ! 0) (guided_grads conv g ! 0)"
  have ne: "concat ?cam \<noteq> []"
    using class_activation_map_nonempty [OF vc assms(4,5)] .
  from cv2_resize_shape [OF ne assms(8,7)] obtain r where
    r: "cv2_resize interp ?cam (W, H) = Inr r" "length r = H"
       "\<forall>row\<in>set r. length row = W" "concat r \<noteq> []" by blast
  from normalize_heatmap_shape [OF r(4)] obtain hm where
    hm: "normalize_heatmap r eps = Inr hm" "map length hm = map length r" by blast
  have 1: "heatmap_of interp img (Rank4 conv) (Rank4 g) eps = Inr hm"
    using c0 g0 r(1) hm(1) assms(6)
    by (simp add: heatmap_of_def py_index_0 Let_def py_index_def)
  have 2: "length hm = H" using hm(2) r(2) by (metis length_map)
  have 3: "length row = W" if "row \<in> set hm" for row
  proof -
    from that have "length row \<in> set (map length hm)" by simp
    with hm(2) r(3) show ?thesis by auto
  qed
  from 1 2 3 show ?thesis by blast
qed

text \<open>
  C3. Let the target stage exist and yield, on the image, activations of \<open>B\<close> volumes of
  \<open>h\<close> rows and \<open>w\<close> columns, let the class index select a score and the gradient have the
  shape of the activations. For an image of \<open>H\<close> rows and \<open>W\<close> columns, \<^verbatim>\<open>compute_heatmap\<close>
  returns an array of \<open>H\<close> rows of \<open>W\<close> unsigned 8-bit values, whatever \<open>h\<close> and \<open>w\<close> are, and
  every value is at most 255.
\<close>

theorem heatmap_shape:
  assumes "get_layer (layers (model self)) (target_layer_name self) = Inr k"
      and "forward s (take (Suc k) (layers (model self))) img = Inr (Rank4 conv)"
      and "loss_of s (drop (Suc k) (layers (model self))) classIdx (Rank4 conv) = Inr loss"
      and "tp (loss_of s (drop (Suc k) (layers (model self))) classIdx) (Rank4 conv) = Rank4 g"
      and "batch B h w C conv" and "batch B h w C g" and "0 < B" and "0 < h" and "0 < w"
      and "tensor_shape img = [n, H, W, Ch]" and "0 < H" and "0 < W"
  shows "\<exists>hm. compute_heatmap tp interp s self img classIdx eps = Inr hm
           \<and> length hm = H \<and> (\<forall>r\<in>set hm. length r = W)
           \<and> (\<forall>r\<in>set hm. \<forall>v\<in>set r. unat v \<le> 255)"
proof -
  have "compute_heatmap tp interp s self img classIdx eps
          = heatmap_of interp img (Rank4 conv) (Rank4 g) eps"
    using assms(1-4) by (simp add: compute_heatmap_def Let_def)
  with heatmap_of_shape [OF assms(5-12)] show ?thesis
    by (auto simp: uint8_le_255)
qed

theorem heatmap_shape_witness:
  "get_layer (layers (model demo_cam_coarse)) (target_layer_name demo_cam_coarse) = Inr 0
   \<and> forward demo_store' (take (Suc 0) (layers (model demo_cam_coarse))) demo_image
       = Inr (Rank4 [[[[10]]]])
   \<and> loss_of demo_store' (drop (Suc 0) (layers (model demo_cam_coarse))) 1 (Rank4 [[[[10]]]])
       = Inr 21
   \<and> difference_tape (loss_of demo_store' (drop (Suc 0) (layers (model demo_cam_coarse))) 1)
        (Rank4 [[[[10]]]]) = Rank4 [[[[2]]]]
   \<and> batch 1 1 1 1 [[[[10]]]] \<and> batch 1 1 1 1 [[[[2]]]]
   \<and> tensor_shape demo_image = [1, 2, 2, 1]
   \<and> compute_heatmap difference_tape nearest demo_store' demo_cam_coarse demo_image 1 (1 / 2)
       = Inr [[0, 0], [0, 0]]"
  using heatmap_shape [of demo_cam_coarse 0 demo_store' demo_image "[[[[10]]]]" 1 21
      difference_tape "[[[[2]]]]" 1 1 1 1 1 2 2 1 nearest "1 / 2"]
  by (simp add: demo_defs query_defs batch_def volume_def upt_rec rounding)

section \<open>The overlay\<close>

text \<open>
  The arithmetic of IEEE 754 on the black pixel and the white heat map entry of the
  example below, for \<open>alpha\<close> the double nearest to three tenths.
\<close>

lemma ieee_sub_alpha: "ieee_sub 1 demo_alpha = 3152519739159347 / 4503599627370496"
proof -
  have "to_double (1 - demo_alpha) = Finite (3152519739159347 / 4503599627370496)"
    unfolding to_double_def
    by (subst ieee_round_at [of "- 1"]) (simp_all add: demo_alpha_def cv_round_def power_int_minus)
  then show ?thesis by (simp add: ieee_sub_def)
qed

lemma to_single_alpha: "to_single demo_alpha = Finite (5033165 / 16777216)"
  unfolding to_single_def
  by (subst ieee_round_at [of "- 2"]) (simp_all add: demo_alpha_def cv_round_def power_int_minus)

lemma to_single_beta: "to_single (3152519739159347 / 4503599627370496) = Finite (11744051 / 16777216)"
  unfolding to_single_def
  by (subst ieee_round_at [of "- 1"]) (simp_all add: cv_round_def power_int_minus)

lemma to_single_product: "to_single (2994733005 / 16777216) = Finite (357 / 2)"
  unfolding to_single_def
  by (subst ieee_round_at [of 7]) (simp_all add: cv_round_def power_int_minus)

lemma to_single_sum: "to_single (357 / 2) = Finite (357 / 2)"
  unfolding to_single_def
  by (subst ieee_round_at [of 7]) (simp_all add: cv_round_def power_int_minus)

lemma to_single_255: "to_single 255 = Finite 255"
  using ieee_round_nat [of 255 24 "- 126" 127] by (simp add: to_single_def)

lemma ieee_weighted_alpha:
  "ieee_weighted 0 demo_alpha 255 (3152519739159347 / 4503599627370496) 0 = Finite (357 / 2)"
  by (simp add: ieee_weighted_def single_op_def to_single_alpha to_single_beta to_single_0
      to_single_255 to_single_product to_single_sum)

lemma map_eq_zipD:
  assumes "map g xs = map g' ys" and "(x, y) \<in> set (zip xs ys)"
  shows "g x = g' y"
proof -
  from assms(2) obtain i where i: "i < length xs" "i < length ys" "xs ! i = x" "ys ! i = y"
    by (auto simp: in_set_zip)
  from assms(1) have "map g xs ! i = map g' ys ! i" by simp
  with i show ?thesis by simp
qed

lemma map_eq_lengthD: "map g xs = map g' ys \<Longrightarrow> length xs = length ys"
  by (metis length_map)

lemma map2_left:
  assumes "length xs = length ys" and "\<And>x y. (x, y) \<in> set (zip xs ys) \<Longrightarrow> f x y = x"
  shows "map2 f xs ys = xs"
proof -
  have "map2 f xs ys = map fst (zip xs ys)"
    using assms(2) by (intro map_cong) auto
  with assms(1) show ?thesis by simp
qed

lemma map2_right:
  assumes "length xs = length ys" and "\<And>x y. (x, y) \<in> set (zip xs ys) \<Longrightarrow> f x y = y"
  shows "map2 f xs ys = ys"
proof -
  have "map2 f xs ys = map snd (zip xs ys)"
    using assms(2) by (intro map_cong) auto
  with assms(1) show ?thesis by simp
qed

lemma map2_3_left:
  assumes "map (map length) a = map (map length) b"
      and "\<And>x y. f x y = x"
  shows "map2 (map2 (map2 f)) a b = a"
proof (rule map2_left)
  show "length a = length b" using assms(1) by (rule map_eq_lengthD)
next
  fix r1 r2 assume r: "(r1, r2) \<in> set (zip a b)"
  have rl: "map length r1 = map length r2" using map_eq_zipD [OF assms(1) r] .
  show "map2 (map2 f) r1 r2 = r1"
  proof (rule map2_left)
    show "length r1 = length r2" using rl by (rule map_eq_lengthD)
  next
    fix p q assume p: "(p, q) \<in> set (zip r1 r2)"
    have "length p = length q" using map_eq_zipD [OF rl p] .
    then show "map2 f p q = p" by (intro map2_left) (simp_all add: assms(2))
  qed
qed

lemma map2_3_right:
  assumes "map (map length) a = map (map length) b"
      and "\<And>x y. f x y = y"
  shows "map2 (map2 (map2 f)) a b = b"
proof (rule map2_right)
  show "length a = length b" using assms(1) by (rule map_eq_lengthD)
next
  fix r1 r2 assume r: "(r1, r2) \<in> set (zip a b)"
  have rl: "map length r1 = map length r2" using map_eq_zipD [OF assms(1) r] .
  show "map2 (map2 f) r1 r2 = r2"
  proof (rule map2_right)
    show "length r1 = length r2" using rl by (rule map_eq_lengthD)
  next
    fix p q assume p: "(p, q) \<in> set (zip r1 r2)"
    have "length p = length q" using map_eq_zipD [OF rl p] .
    then show "map2 f p q = q" by (intro map2_right) (simp_all add: assms(2))
  qed
qed

lemma nth_map2_3:
  assumes "map (map length) a = map (map length) b"
      and "i < length a" and "j < length (a ! i)" and "c < length (a ! i ! j)"
  shows "map2 (map2 (map2 f)) a b ! i ! j ! c = f (a ! i ! j ! c) (b ! i ! j ! c)"
proof -
  have la: "length a = length b" using assms(1) by (rule map_eq_lengthD)
  have "map (map length) a ! i = map (map length) b ! i" using assms(1) by simp
  with assms(2) la have rl: "map length (a ! i) = map length (b ! i)" by simp
  then have lr: "length (a ! i) = length (b ! i)" by (rule map_eq_lengthD)
  have "map length (a ! i) ! j = map length (b ! i) ! j" using rl by simp
  with assms(3) lr have lp: "length (a ! i ! j) = length (b ! i ! j)" by simp
  show ?thesis using assms(2-4) la lr lp by simp
qed

lemma shape_map2_3:
  assumes "map (map length) a = map (map length) b"
  shows "map (map length) (map2 (map2 (map2 f)) a b) = map (map length) a"
proof -
  have la: "length a = length b" using assms by (rule map_eq_lengthD)
  have "map length (map2 (map2 f) r1 r2) = map length r1"
    if r: "(r1, r2) \<in> set (zip a b)" for r1 r2
  proof -
    have rl: "map length r1 = map length r2" using map_eq_zipD [OF assms r] .
    then have lr: "length r1 = length r2" by (rule map_eq_lengthD)
    have "length (map2 f p q) = length p" if "(p, q) \<in> set (zip r1 r2)" for p q
      using map_eq_zipD [OF rl that] by simp
    then have "map length (map2 (map2 f) r1 r2) = map (\<lambda>(p, q). length p) (zip r1 r2)"
      by (auto simp: comp_def intro!: map_cong)
    also have "\<dots> = map length (map fst (zip r1 r2))" by (simp add: comp_def case_prod_beta)
    also have "\<dots> = map length r1" using lr by simp
    finally show ?thesis .
  qed
  then have "map (map length) (map2 (map2 (map2 f)) a b) = map (\<lambda>(r1, r2). map length r1) (zip a b)"
    by (auto simp: comp_def intro!: map_cong)
  also have "\<dots> = map (map length) (map fst (zip a b))" by (simp add: comp_def case_prod_beta)
  also have "\<dots> = map (map length) a" using la by simp
  finally show ?thesis .
qed

lemma uint_saturate_uint8:
  "uint (saturate_uint8 (Finite v)) = max 0 (min 255 (cv_round v))"
proof -
  let ?z = "max 0 (min 255 (cv_round v))"
  have "0 \<le> ?z" "?z < 2 ^ LENGTH(8)" by simp_all
  then have "uint (word_of_int ?z :: uint8) = ?z"
    by (simp only: uint_word_of_int take_bit_eq_mod [symmetric] take_bit_int_eq_self)
  then show ?thesis by (simp add: saturate_uint8_def)
qed

lemma saturate_uint8_unat: "saturate_uint8 (Finite (real (unat a))) = a"
proof -
  have b: "0 \<le> uint a" "uint a < 256" using uint_lt2p [of a] by simp_all
  have "real (unat a) = of_int (uint a)" by simp
  then have "cv_round (real (unat a)) = uint a"
    using cv_round_of_int [of "uint a"] by simp
  moreover have "max 0 (min 255 (uint a)) = uint a" using b by simp
  ultimately have "uint (saturate_uint8 (Finite (real (unat a)))) = uint a"
    by (simp only: uint_saturate_uint8)
  then show ?thesis by (simp only: word_uint_eq_iff)
qed

text \<open>On a heat map without entries the call does not return.\<close>

lemma overlay_heatmap_empty:
  "concat heatmap = [] \<Longrightarrow> overlay_heatmap ar colormap heatmap img alpha = Inl ProcessKilled"
  by (simp add: overlay_heatmap_def applyColorMap_def)

lemma applyColorMap_Inr:
  "concat heatmap \<noteq> [] \<Longrightarrow> applyColorMap colormap heatmap = Inr (map (map colormap) heatmap)"
  by (simp add: applyColorMap_def)

text \<open>
  C8, as stated, fails: the blend is not computed exactly. For \<open>alpha\<close> the double nearest
  to three tenths, a black image and a white heat map under a grey palette, single
  precision gives \<open>178.5\<close> for the weighted sum, which is converted to 178; the exact value
  of \<open>alpha * 0 + (1 - alpha) * 255\<close> lies above \<open>178.5\<close>, and its nearest integer is 179.
\<close>

theorem overlay_blend_inexact:
  "overlay_heatmap ieee_arithmetic demo_palette [[255]] [[[0, 0, 0]]] demo_alpha
     = Inr ([[[255, 255, 255]]], [[[178, 178, 178]]])
   \<and> 178 + 1 / 2 < demo_alpha * 0 + (1 - demo_alpha) * 255
   \<and> cv_round (demo_alpha * 0 + (1 - demo_alpha) * 255) = 179"
proof -
  have "saturate_uint8 (Finite (357 / 2)) = 178"
    by (simp add: saturate_uint8_def cv_round_def)
  then have "overlay_heatmap ieee_arithmetic demo_palette [[255]] [[[0, 0, 0]]] demo_alpha
     = Inr ([[[255, 255, 255]]], [[[178, 178, 178]]])"
    by (simp add: overlay_heatmap_def applyColorMap_def addWeighted_def ieee_arithmetic_def
        demo_palette_def ieee_sub_alpha ieee_weighted_alpha)
  moreover have "178 + 1 / 2 < demo_alpha * 0 + (1 - demo_alpha) * 255"
    by (simp add: demo_alpha_def)
  moreover have "cv_round (demo_alpha * 0 + (1 - demo_alpha) * 255) = 179"
    by (simp add: demo_alpha_def cv_round_def)
  ultimately show ?thesis by simp
qed

text \<open>
  C8, amended. For a heat map that is not empty and an image of the shape of the coloured
  heat map, \<^verbatim>\<open>overlay_heatmap\<close> returns the coloured heat map and an output of the shape of
  the image. Every entry of the output is the value that the arithmetic of
  \<^verbatim>\<open>cv2.addWeighted\<close> gives to \<open>image * alpha + coloured * (1 - alpha) + 0\<close>, the difference
  \<open>1 - alpha\<close> being computed beforehand in the arithmetic of Python, rounded to the nearest
  integer (halves to the even neighbour) and clipped to the range from 0 to 255, whenever
  that value is finite. In the arithmetic of IEEE 754, for \<open>alpha = 1\<close> the output is the
  image and for \<open>alpha = 0\<close> it is the coloured heat map.
\<close>

theorem overlay_blend:
  assumes "concat heatmap \<noteq> []"
      and "map (map length) img = map (map length) (map (map colormap) heatmap)"
  shows "(\<exists>output. overlay_heatmap ar colormap heatmap img alpha
               = Inr (map (map colormap) heatmap, output)
           \<and> map (map length) output = map (map length) img
           \<and> (\<forall>i j c v. i < length img \<longrightarrow> j < length (img ! i) \<longrightarrow> c < length (img ! i ! j) \<longrightarrow>
                 weighted ar (real (unat (img ! i ! j ! c))) alpha
                   (real (unat (colormap (heatmap ! i ! j) ! c))) (float_sub ar 1 alpha) 0
                   = Finite v \<longrightarrow>
                 uint (output ! i ! j ! c) = max 0 (min 255 (cv_round v))))
       \<and> overlay_heatmap ieee_arithmetic colormap heatmap img 1
           = Inr (map (map colormap) heatmap, img)
       \<and> overlay_heatmap ieee_arithmetic colormap heatmap img 0
           = Inr (map (map colormap) heatmap, map (map colormap) heatmap)"
proof -
  let ?col = "map (map colormap) heatmap"
  let ?f = "\<lambda>ar alpha a b. saturate_uint8
       (weighted ar (real (unat a)) alpha (real (unat b)) (float_sub ar 1 alpha) 0)"
  have ov: "overlay_heatmap ar colormap heatmap img alpha
       = Inr (?col, map2 (map2 (map2 (?f ar alpha))) img ?col)" for ar alpha
    using assms by (simp add: overlay_heatmap_def applyColorMap_Inr addWeighted_def)
  have sh: "map (map length) (map2 (map2 (map2 (?f ar alpha))) img ?col) = map (map length) img"
    using assms(2) by (rule shape_map2_3)
  have en: "uint (map2 (map2 (map2 (?f ar alpha))) img ?col ! i ! j ! c)
              = max 0 (min 255 (cv_round v))"
    if b: "i < length img" "j < length (img ! i)" "c < length (img ! i ! j)"
      and v: "weighted ar (real (unat (img ! i ! j ! c))) alpha
                (real (unat (colormap (heatmap ! i ! j) ! c))) (float_sub ar 1 alpha) 0 = Finite v"
    for i j c v
  proof -
    have li: "i < length heatmap" using assms(2) b(1) by (metis length_map)
    have "map (map length) img ! i = map (map length) ?col ! i" using assms(2) by simp
    with b(1) li have "map length (img ! i) = map length (map colormap (heatmap ! i))" by simp
    then have lj: "j < length (heatmap ! i)" using b(2) by (metis length_map)
    have c: "?col ! i ! j = colormap (heatmap ! i ! j)" using li lj by simp
    show ?thesis
      unfolding nth_map2_3 [OF assms(2) b] c v by (rule uint_saturate_uint8)
  qed
  have one: "map2 (map2 (map2 (?f ieee_arithmetic 1))) img ?col = img"
    using assms(2)
    by (rule map2_3_left)
      (simp add: ieee_arithmetic_def ieee_sub_1_1 ieee_weighted_left saturate_uint8_unat
        del: of_nat_unat)
  have zero: "map2 (map2 (map2 (?f ieee_arithmetic 0))) img ?col = ?col"
    using assms(2)
    by (rule map2_3_right)
      (simp add: ieee_arithmetic_def ieee_sub_1_0 ieee_weighted_right saturate_uint8_unat
        del: of_nat_unat)
  have 1: "\<exists>output. overlay_heatmap ar colormap heatmap img alpha = Inr (?col, output)
           \<and> map (map length) output = map (map length) img
           \<and> (\<forall>i j c v. i < length img \<longrightarrow> j < length (img ! i) \<longrightarrow> c < length (img ! i ! j) \<longrightarrow>
                 weighted ar (real (unat (img ! i ! j ! c))) alpha
                   (real (unat (colormap (heatmap ! i ! j) ! c))) (float_sub ar 1 alpha) 0
                   = Finite v \<longrightarrow>
                 uint (output ! i ! j ! c) = max 0 (min 255 (cv_round v)))"
    using ov [of ar alpha] sh en by blast
  have 2: "overlay_heatmap ieee_arithmetic colormap heatmap img 1 = Inr (?col, img)"
    using ov [of ieee_arithmetic 1] one by simp
  have 3: "overlay_heatmap ieee_arithmetic colormap heatmap img 0 = Inr (?col, ?col)"
    using ov [of ieee_arithmetic 0] zero by simp
  from 1 2 3 show ?thesis by blast
qed

theorem overlay_blend_witness:
  "concat demo_heatmap \<noteq> []
   \<and> map (map length) demo_picture = map (map length) (map (map demo_palette) demo_heatmap)
   \<and> overlay_heatmap ieee_arithmetic demo_palette demo_heatmap demo_picture 1
       = Inr ([[[0, 0, 0], [255, 255, 255]]], demo_picture)
   \<and> overlay_heatmap ieee_arithmetic demo_palette demo_heatmap demo_picture 0
       = Inr ([[[0, 0, 0], [255, 255, 255]]], [[[0, 0, 0], [255, 255, 255]]])"
  using overlay_blend [of demo_heatmap demo_picture demo_palette ieee_arithmetic 1]
  by (simp add: demo_heatmap_def demo_picture_def demo_palette_def)

section \<open>Facts about construction\<close>

lemma py_index_Inr_nonempty: "py_index xs i = Inr x \<Longrightarrow> xs \<noteq> []"
  by (auto simp: py_index_def split: if_splits)

lemma length_assign_all: "length (assign_all s aws) = length s"
  by (induction s aws rule: assign_all.induct) simp_all

lemma assign_all_other: "a \<notin> fst ` set aws \<Longrightarrow> assign_all s aws ! a = s ! a"
  by (induction s aws rule: assign_all.induct) auto

lemma assign_all_read:
  assumes "distinct (map fst aws)" and "\<forall>a \<in> fst ` set aws. a < length s"
  shows "map (\<lambda>a. assign_all s aws ! a) (map fst aws) = map snd aws"
  using assms
proof (induction s aws rule: assign_all.induct)
  case (1 s)
  then show ?case by simp
next
  case (2 s a w aws)
  have "assign_all (s[a := w]) aws ! a = (s[a := w]) ! a"
    using "2.prems"(1) by (intro assign_all_other) auto
  moreover have "a < length s" using "2.prems"(2) by simp
  ultimately have hd: "assign_all (s[a := w]) aws ! a = w" by simp
  have "map (\<lambda>b. assign_all (s[a := w]) aws ! b) (map fst aws) = map snd aws"
  proof (rule "2.IH")
    show "distinct (map fst aws)" using "2.prems"(1) by simp
    show "\<forall>b \<in> fst ` set aws. b < length (s[a := w])" using "2.prems"(2) by simp
  qed
  with hd show ?case by simp
qed

lemma Dense_build_Inr:
  assumes "Dense_build ini s c u inp = Inr (l, s1)"
  shows "cls l = Dense" and "config l = c"
    and "weights l = [length s ..< length s1]" and "take (length s) s1 = s"
    and "length s \<le> length s1"
  using assms by (auto simp: Dense_build_def Let_def split: if_splits option.splits)

lemma set_weights_Inr:
  assumes "set_weights s1 l ws = Inr s2"
  shows "length ws = length (weights l)" and "s2 = assign_all s1 (zip (weights l) ws)"
  using assms by (auto simp: set_weights_def split: if_splits)

lemma map_of_update_other: "k \<noteq> k' \<Longrightarrow> map_of (AList.update k v al) k' = map_of al k'"
  by (simp add: update_conv')

lemma linearize_softmax:
  assumes "linearize ini s m = Inr (m', s')"
      and "map_of (config (last (layers m))) ''activation'' = Some (CStr ''softmax'')"
  shows "\<exists>new_layer. layers m' = butlast (layers m) @ [new_layer]
           \<and> cls new_layer = Dense
           \<and> config new_layer = AList.update ''name'' (CStr ''new_layer'')
                 (AList.update ''activation'' (CFn Linear) (config (last (layers m))))
           \<and> weights new_layer = [length s ..< length s']
           \<and> read_weights s' new_layer = read_weights s (last (layers m))
           \<and> length s \<le> length s'
           \<and> (\<forall>a < length s. s' ! a = s ! a)"
proof -
  from assms(1) have ne: "layers m \<noteq> []"
    by (auto simp: linearize_def py_index_def split: sum.splits if_splits)
  let ?lst = "last (layers m)"
  let ?c = "AList.update ''name'' (CStr ''new_layer'')
              (AList.update ''activation'' (CFn Linear) (config ?lst))"
  from assms ne obtain u inp new_layer s1 where
    b: "Dense_build ini s ?c u inp = Inr (new_layer, s1)" and
    w: "set_weights s1 new_layer (read_weights s ?lst) = Inr s'" and
    m': "m' = \<lparr> layers = butlast (layers m) @ [new_layer] \<rparr>"
    by (auto simp: linearize_def py_index_last dict_get_def Model_def Let_def
        split: sum.splits if_splits)
  note B = Dense_build_Inr [OF b] and W = set_weights_Inr [OF w]
  have len: "length s' = length s1" using W(2) by (simp add: length_assign_all)
  let ?aws = "zip (weights new_layer) (read_weights s ?lst)"
  have fst: "map fst ?aws = weights new_layer" and snd: "map snd ?aws = read_weights s ?lst"
    using W(1) by simp_all
  have "map (\<lambda>a. assign_all s1 ?aws ! a) (map fst ?aws) = map snd ?aws"
  proof (rule assign_all_read)
    show "distinct (map fst ?aws)" using fst B(3) by simp
    show "\<forall>a \<in> fst ` set ?aws. a < length s1"
      using fst B(3) by (metis atLeastLessThan_iff list.set_map set_upt)
  qed
  then have rd: "read_weights s' new_layer = read_weights s ?lst"
    unfolding fst snd using W(2) by (simp add: read_weights_def)
  have old: "s' ! a = s ! a" if "a < length s" for a
  proof -
    have "a \<notin> fst ` set ?aws"
      using that fst B(3) by (metis atLeastLessThan_iff list.set_map not_le set_upt)
    then have "s' ! a = s1 ! a" using W(2) by (simp add: assign_all_other)
    also have "\<dots> = take (length s) s1 ! a" using that by simp
    also have "\<dots> = s ! a" using B(4) by simp
    finally show ?thesis .
  qed
  show ?thesis
    using m' B(1,2,3,5) rd old len by auto
qed


lemma forward_append:
  "forward s (xs @ ys) t =
     (case forward s xs t of Inl e \<Rightarrow> Inl e | Inr t' \<Rightarrow> forward s ys t')"
  by (induction xs arbitrary: t) (simp_all split: sum.splits)

lemma read_weights_agree:
  assumes "\<forall>a \<in> set (weights l). a < length s" and "\<forall>a < length s. s' ! a = s ! a"
  shows "read_weights s' l = read_weights s l"
  using assms by (simp add: read_weights_def)

lemma layer_call_agree:
  "read_weights s' l = read_weights s l \<Longrightarrow> layer_call s' l t = layer_call s l t"
  by (cases "cls l") (simp_all add: layer_call_def)

lemma forward_agree:
  assumes "\<forall>l \<in> set ls. read_weights s' l = read_weights s l"
  shows "forward s' ls t = forward s ls t"
  using assms
proof (induction ls arbitrary: t)
  case Nil
  show ?case by simp
next
  case (Cons l ls)
  have "layer_call s' l t = layer_call s l t"
    using Cons.prems by (intro layer_call_agree) simp
  moreover have "forward s' ls u = forward s ls u" for u
    using Cons.prems by (intro Cons.IH) simp
  ultimately show ?case by (simp split: sum.splits)
qed

lemma sequence_map_map_sum:
  "sequence (map (\<lambda>x. map_sum id G (F x)) xs) = map_sum id (map G) (sequence (map F xs))"
  by (induction xs) (simp_all split: sum.splits)

lemma sequence_map_Inr: "sequence (map (\<lambda>x. Inr (G x)) xs) = Inr (map G xs)"
  by (induction xs) simp_all

lemma on_last_axis_then:
  "on_last_axis (\<lambda>x. map_sum id g (f x)) t =
     (case on_last_axis f t of Inl e \<Rightarrow> Inl e | Inr t' \<Rightarrow> on_last_axis (\<lambda>z. Inr (g z)) t')"
proof (cases t)
  case (Rank2 rows)
  show ?thesis
    by (cases "sequence (map f rows)")
      (simp_all add: Rank2 sequence_map_map_sum sequence_map_Inr)
next
  case (Rank4 vs)
  show ?thesis
    by (cases "sequence (map (\<lambda>vol. sequence (map (\<lambda>row. sequence (map f row)) vol)) vs)")
      (simp_all add: Rank4 sequence_map_map_sum sequence_map_Inr)
qed

lemma on_last_axis_id: "on_last_axis (\<lambda>x. map_sum id (\<lambda>z. z) (f x)) t = on_last_axis f t"
proof -
  have "map_sum id (\<lambda>z. z) r = r" for r :: "error + real list"
    by (cases r) simp_all
  then have "(\<lambda>x. map_sum id (\<lambda>z. z) (f x)) = f"
    by simp
  then show ?thesis by simp
qed

lemma dense_call_linear:
  assumes "map_of c ''activation'' = Some (CFn Linear)"
  shows "dense_call c ws t = dense_logits c ws t"
proof -
  have "apply_activation Linear = (\<lambda>z. z)" by (rule ext) simp
  then show ?thesis using assms by (simp add: dense_call_def dense_logits_def on_last_axis_id)
qed

lemma dense_call_softmax:
  assumes "map_of c ''activation'' = Some (CStr ''softmax'')"
  shows "dense_call c ws t =
     (case dense_logits c ws t of
        Inl e \<Rightarrow> Inl e
      | Inr t' \<Rightarrow> on_last_axis (\<lambda>z. Inr (apply_activation Softmax z)) t')"
  using assms by (simp add: dense_call_def dense_logits_def on_last_axis_then)

lemma use_bias_update:
  "use_bias (AList.update ''name'' v (AList.update ''activation'' v' c)) = use_bias c"
  by (simp add: use_bias_def update_conv')

lemma dense_logits_cong: "use_bias c = use_bias c' \<Longrightarrow> dense_logits c ws t = dense_logits c' ws t"
  by (simp add: dense_logits_def)

lemma GradCAM_init_Inr:
  assumes "GradCAM_init ini s m target_layer k = Inr (self, s')"
  shows "linearize ini s m = Inr (model self, s')"
  using assms by (auto simp: GradCAM_init_def split: sum.splits option.splits)

lemma linearize_other:
  assumes "linearize ini s m = Inr (m', s')"
      and "map_of (config (last (layers m))) ''activation'' \<noteq> Some (CStr ''softmax'')"
  shows "m' = m \<and> s' = s"
proof -
  from assms(1) have ne: "layers m \<noteq> []"
    by (auto simp: linearize_def py_index_def split: sum.splits if_splits)
  with assms show ?thesis
    by (auto simp: linearize_def py_index_last dict_get_def split: sum.splits option.splits if_splits)
qed

lemma linearize_keeps_store:
  assumes "linearize ini s m = Inr (m', s')" and "a < length s"
  shows "s' ! a = s ! a"
proof (cases "map_of (config (last (layers m))) ''activation'' = Some (CStr ''softmax'')")
  case True
  from linearize_softmax [OF assms(1) True] assms(2) show ?thesis by blast
next
  case False
  from linearize_other [OF assms(1) False] show ?thesis by simp
qed

lemma run_queries_state: "fst (run_queries tp interp ar st qs) = st"
proof (induction qs arbitrary: st)
  case Nil
  show ?case by simp
next
  case (Cons q qs)
  obtain s self where st: "st = (s, self)" by (cases st)
  have "fst (run_query tp interp ar st q) = st" unfolding st by (cases q) simp_all
  with Cons.IH [of st] show ?case
    by (simp add: split_beta)
qed

lemma scan_layers_skip:
  assumes "\<forall>x \<in> set xs. length (output_shape x) = 4 \<longrightarrow>
             (\<exists>e. output_shape x ! 1 = Some e \<and> e < k)"
  shows "scan_layers (xs @ ys) k = scan_layers ys k"
  using assms by (induction xs) auto

lemma scan_layers_found:
  assumes "length (output_shape l) = 4" and "output_shape l ! 1 = Some d" and "k \<le> d"
      and "\<forall>x \<in> set xs. length (output_shape x) = 4 \<longrightarrow>
             (\<exists>e. output_shape x ! 1 = Some e \<and> e < k)"
  shows "scan_layers (xs @ l # ys) k = Inr (name l)"
  using assms by (simp add: scan_layers_skip)

lemma scan_layers_none:
  assumes "\<forall>x \<in> set xs. length (output_shape x) = 4 \<longrightarrow>
             (\<exists>e. output_shape x ! 1 = Some e \<and> e < k)"
  shows "scan_layers xs k = Inl no_4d_layer"
  using scan_layers_skip [OF assms, of "[]"] by simp

lemma scan_layers_unknown:
  assumes "length (output_shape l) = 4" and "output_shape l ! 1 = None"
      and "\<forall>x \<in> set xs. length (output_shape x) = 4 \<longrightarrow>
             (\<exists>e. output_shape x ! 1 = Some e \<and> e < k)"
  shows "scan_layers (xs @ l # ys) k = Inl TypeError"
  using assms by (simp add: scan_layers_skip)

lemma scan_layers_cong:
  assumes "map (\<lambda>l. (name l, output_shape l)) xs = map (\<lambda>l. (name l, output_shape l)) ys"
  shows "scan_layers xs k = scan_layers ys k"
  using assms
proof (induction xs arbitrary: ys)
  case Nil
  then show ?case by simp
next
  case (Cons x xs)
  then obtain y ys' where ys: "ys = y # ys'" by (cases ys) auto
  with Cons.prems have xy: "name x = name y" "output_shape x = output_shape y"
    and rest: "map (\<lambda>l. (name l, output_shape l)) xs = map (\<lambda>l. (name l, output_shape l)) ys'"
    by simp_all
  from Cons.IH [OF rest] xy show ?case unfolding ys by (simp split: option.splits)
qed

lemma Dense_build_signature:
  assumes "Dense_build ini s c u inp = Inr (l, s1)"
  shows "name l = (case map_of c ''name'' of Some (CStr n) \<Rightarrow> n | _ \<Rightarrow> ''dense'')"
    and "output_shape l = butlast (output_shape inp) @ [Some (int u)]"
  using assms by (auto simp: Dense_build_def Let_def split: if_splits option.splits)

lemma linearize_signature:
  assumes "linearize ini s m = Inr (m1, s1)" and "linearize ini' s' m = Inr (m2, s2)"
  shows "map (\<lambda>l. (name l, output_shape l)) (layers m1)
           = map (\<lambda>l. (name l, output_shape l)) (layers m2)"
proof (cases "map_of (config (last (layers m))) ''activation'' = Some (CStr ''softmax'')")
  case False
  from linearize_other [OF assms(1) False] linearize_other [OF assms(2) False]
  show ?thesis by simp
next
  case True
  from assms(1) have ne: "layers m \<noteq> []"
    by (auto simp: linearize_def py_index_def split: sum.splits if_splits)
  let ?c = "AList.update ''name'' (CStr ''new_layer'')
              (AList.update ''activation'' (CFn Linear) (config (last (layers m))))"
  from assms(1) True ne obtain u inp l1 t1 where
    a: "Dense_init ?c = Inr u" "py_index (layers m) (- 2) = Inr inp"
       "Dense_build ini s ?c u inp = Inr (l1, t1)"
       "layers m1 = butlast (layers m) @ [l1]"
    by (auto simp: linearize_def py_index_last dict_get_def Model_def Let_def
        split: sum.splits if_splits)
  from assms(2) True ne a(1,2) obtain l2 t2 where
    b: "Dense_build ini' s' ?c u inp = Inr (l2, t2)"
       "layers m2 = butlast (layers m) @ [l2]"
    by (auto simp: linearize_def py_index_last dict_get_def Model_def Let_def
        split: sum.splits if_splits)
  from Dense_build_signature [OF a(3)] Dense_build_signature [OF b(1)] a(4) b(2)
  show ?thesis by simp
qed

lemma GradCAM_init_search:
  assumes "GradCAM_init ini s m None k = Inr (self, s')"
  shows "find_target_layer (model self) k = Inr (target_layer_name self)"
  using assms by (auto simp: GradCAM_init_def split: sum.splits)

section \<open>The linearized classifier\<close>

text \<open>
  C2. Let the final stage be a Dense stage with softmax activation whose variables, like
  those of the other stages, are in the store. If construction succeeds, the classifier it
  keeps yields, on every input, the raw scores of the original classifier, that is the
  affine part of the original final stage applied to the output of the stages before it;
  and the original classifier's output is the softmax of exactly these scores. The
  equality is one of whole score tensors, hence holds at every class index.
\<close>

theorem linearized_scores:
  assumes "GradCAM_init ini s m target_layer k = Inr (self, s')"
      and "map_of (config (last (layers m))) ''activation'' = Some (CStr ''softmax'')"
      and "cls (last (layers m)) = Dense"
      and "\<forall>l \<in> set (layers m). \<forall>a \<in> set (weights l). a < length s"
  shows "predict s' (model self) x = logits s m x
       \<and> predict s m x =
           (case logits s m x of
              Inl e \<Rightarrow> Inl e
            | Inr t \<Rightarrow> on_last_axis (\<lambda>z. Inr (apply_activation Softmax z)) t)"
proof -
  let ?lst = "last (layers m)"
  let ?c = "AList.update ''name'' (CStr ''new_layer'')
              (AList.update ''activation'' (CFn Linear) (config ?lst))"
  note lin = GradCAM_init_Inr [OF assms(1)]
  from lin have ne: "layers m \<noteq> []"
    by (auto simp: linearize_def py_index_def split: sum.splits if_splits)
  from linearize_softmax [OF lin assms(2)] obtain new_layer where
    n: "layers (model self) = butlast (layers m) @ [new_layer]" "cls new_layer = Dense"
       "config new_layer = ?c" "read_weights s' new_layer = read_weights s ?lst"
       "\<forall>a < length s. s' ! a = s ! a"
    by blast
  have act: "map_of ?c ''activation'' = Some (CFn Linear)"
    by (simp add: update_conv')
  have pre: "forward s' (butlast (layers m)) x = forward s (butlast (layers m)) x"
  proof (rule forward_agree, rule ballI)
    fix l assume "l \<in> set (butlast (layers m))"
    then have "l \<in> set (layers m)" by (rule in_set_butlastD)
    with assms(4) n(5) show "read_weights s' l = read_weights s l"
      by (intro read_weights_agree) auto
  qed
  have new: "layer_call s' new_layer t = dense_logits (config ?lst) (read_weights s ?lst) t" for t
    using n(2,3,4) dense_call_linear [OF act]
      dense_logits_cong [OF use_bias_update [of "CStr ''new_layer''" "CFn Linear" "config ?lst"]]
    by (simp add: layer_call_def)
  have 1: "predict s' (model self) x = logits s m x"
    unfolding predict_def logits_def n(1) forward_append pre
    by (simp add: new split: sum.splits)
  have old: "layer_call s ?lst t =
      (case dense_logits (config ?lst) (read_weights s ?lst) t of
         Inl e \<Rightarrow> Inl e
       | Inr t' \<Rightarrow> on_last_axis (\<lambda>z. Inr (apply_activation Softmax z)) t')" for t
    using assms(3) dense_call_softmax [OF assms(2)] by (simp add: layer_call_def)
  have "layers m = butlast (layers m) @ [?lst]" using ne by simp
  then have "forward s (layers m) x =
      (case forward s (butlast (layers m)) x of
         Inl e \<Rightarrow> Inl e
       | Inr t \<Rightarrow> forward s [?lst] t)"
    using forward_append [of s "butlast (layers m)" "[?lst]" x] by simp
  then have 2: "predict s m x =
      (case logits s m x of
         Inl e \<Rightarrow> Inl e
       | Inr t \<Rightarrow> on_last_axis (\<lambda>z. Inr (apply_activation Softmax z)) t)"
    unfolding predict_def logits_def by (simp add: old split: sum.splits)
  from 1 2 show ?thesis by simp
qed

theorem linearized_scores_witness:
  "GradCAM_init (\<lambda>i. 0) demo_store demo_model None 1 = Inr (demo_cam, demo_store')
   \<and> map_of (config (last (layers demo_model))) ''activation'' = Some (CStr ''softmax'')
   \<and> cls (last (layers demo_model)) = Dense
   \<and> list_all (\<lambda>l. list_all (\<lambda>a. a < length demo_store) (weights l)) (layers demo_model)
   \<and> predict demo_store' (model demo_cam) demo_image = logits demo_store demo_model demo_image
   \<and> logits demo_store demo_model demo_image = Inr (Rank2 [[5 / 2, 6]])"
  using linearized_scores [of "\<lambda>i. 0" demo_store demo_model None 1 demo_cam demo_store'
      demo_image]
  by (simp add: demo_defs init_defs logits_def dense_logits_def query_defs upt_rec)

section \<open>Nothing is mutated\<close>

text \<open>
  C9. If construction succeeds, every variable that existed before it holds the value it
  held, so the parameters of every stage of the original classifier are unchanged; in the
  softmax case the new final stage owns variables allocated by construction (none of them
  existed before) that hold the values of the original final stage's variables; and
  whatever queries are run afterwards, the store and the pair of classifier and target
  stage name are those construction left.
\<close>

theorem parameters_not_mutated:
  assumes "GradCAM_init ini s m target_layer k = Inr (self, s')"
  shows "(\<forall>a < length s. s' ! a = s ! a)
       \<and> (\<forall>l \<in> set (layers m). (\<forall>a \<in> set (weights l). a < length s)
              \<longrightarrow> read_weights s' l = read_weights s l)
       \<and> (map_of (config (last (layers m))) ''activation'' = Some (CStr ''softmax'') \<longrightarrow>
            (\<exists>new_layer. layers (model self) = butlast (layers m) @ [new_layer]
               \<and> (\<forall>a \<in> set (weights new_layer). length s \<le> a)
               \<and> read_weights s' new_layer = read_weights s (last (layers m))))
       \<and> fst (run_queries tp interp ar (s', self) qs) = (s', self)"
proof -
  note lin = GradCAM_init_Inr [OF assms]
  have 1: "\<forall>a < length s. s' ! a = s ! a"
    using linearize_keeps_store [OF lin] by blast
  have 2: "read_weights s' l = read_weights s l"
    if "\<forall>a \<in> set (weights l). a < length s" for l
    using that 1 by (rule read_weights_agree)
  have 3: "\<exists>new_layer. layers (model self) = butlast (layers m) @ [new_layer]
               \<and> (\<forall>a \<in> set (weights new_layer). length s \<le> a)
               \<and> read_weights s' new_layer = read_weights s (last (layers m))"
    if "map_of (config (last (layers m))) ''activation'' = Some (CStr ''softmax'')"
  proof -
    from linearize_softmax [OF lin that] obtain new_layer where
      n: "layers (model self) = butlast (layers m) @ [new_layer]"
         "weights new_layer = [length s ..< length s']"
         "read_weights s' new_layer = read_weights s (last (layers m))"
      by blast
    from n(2) have "\<forall>a \<in> set (weights new_layer). length s \<le> a" by simp
    with n(1,3) show ?thesis by blast
  qed
  from 1 2 3 run_queries_state [of tp interp ar "(s', self)" qs] show ?thesis by blast
qed

theorem parameters_not_mutated_witness:
  "GradCAM_init (\<lambda>i. 0) demo_store demo_model None 1 = Inr (demo_cam, demo_store')
   \<and> take (length demo_store) demo_store' = demo_store
   \<and> fst (run_queries difference_tape nearest ieee_arithmetic (demo_store', demo_cam)
         [Compute_heatmap demo_image 1 (1 / 2),
          Overlay_heatmap demo_heatmap demo_picture (1 / 2) demo_palette])
       = (demo_store', demo_cam)"
  using parameters_not_mutated [of "\<lambda>i. 0" demo_store demo_model None 1 demo_cam demo_store'
      difference_tape nearest ieee_arithmetic
      "[Compute_heatmap demo_image 1 (1 / 2),
        Overlay_heatmap demo_heatmap demo_picture (1 / 2) demo_palette]"]
  by (simp add: demo_defs init_defs upt_rec)

section \<open>The choice of the target stage\<close>

text \<open>
  C5. The code departs from the claim on a classifier in which a stage of rank 4 with an
  unknown height lies between a qualifying stage and the output. On the stages
  \<open>conv\<close>, \<open>dynamic\<close>, \<open>pool\<close>, \<open>dense\<close> with the minimum 1, the only stage whose output
  is of rank 4 with a dimension 1 of at least the minimum is \<open>conv\<close>, which the claim
  selects; the scan reaches \<open>dynamic\<close> first, and the comparison of \<^verbatim>\<open>None\<close> with the
  minimum on line 40 makes construction fail with a \<^verbatim>\<open>TypeError\<close>.
\<close>

theorem target_layer_not_selected:
  "GradCAM_init (\<lambda>i. 0) demo_store \<lparr> layers = [demo_conv, demo_dynamic, demo_pool, demo_dense] \<rparr>
      None 1 = Inl TypeError
   \<and> length (output_shape demo_conv) = 4 \<and> output_shape demo_conv ! 1 = Some 2
   \<and> length (output_shape demo_dynamic) = 4 \<and> output_shape demo_dynamic ! 1 = None
   \<and> length (output_shape demo_pool) = 2 \<and> length (output_shape demo_dense) = 2"
  by (simp add: demo_defs init_defs upt_rec)

text \<open>
  Where every stage of rank 4 that the scan reaches has a known dimension 1, the code
  selects the stage the claim names. Let the first step of construction succeed, and let
  a stage of the classifier in use have an output of rank 4 whose dimension 1 is at least
  the minimum, every stage after it (closer to the output) being of another rank or of a
  dimension 1 below the minimum. Then construction without a layer name selects that
  stage: of two qualifying stages the later one. And every construction on the same
  classifier with the same minimum that succeeds, whatever the initializer and the store,
  yields the same target stage name.
\<close>

lemma target_layer_deepest:
  assumes "linearize ini s m = Inr (m', s')"
      and "layers m' = pre @ l # post"
      and "length (output_shape l) = 4" and "output_shape l ! 1 = Some d" and "k \<le> d"
      and "\<forall>x \<in> set post. length (output_shape x) = 4 \<longrightarrow>
             (\<exists>e. output_shape x ! 1 = Some e \<and> e < k)"
  shows "GradCAM_init ini s m None k = Inr (\<lparr> model = m', target_layer_name = name l \<rparr>, s')
       \<and> (\<forall>ini2 s2 self2 t2. GradCAM_init ini2 s2 m None k = Inr (self2, t2)
             \<longrightarrow> target_layer_name self2 = name l)"
proof -
  have rv: "rev (layers m') = rev post @ l # rev pre" using assms(2) by simp
  have sk: "\<forall>x \<in> set (rev post). length (output_shape x) = 4 \<longrightarrow>
             (\<exists>e. output_shape x ! 1 = Some e \<and> e < k)"
    using assms(6) by simp
  have found: "find_target_layer m' k = Inr (name l)"
    unfolding find_target_layer_def rv
    using scan_layers_found [OF assms(3,4,5) sk] .
  have 1: "GradCAM_init ini s m None k = Inr (\<lparr> model = m', target_layer_name = name l \<rparr>, s')"
    using assms(1) found by (simp add: GradCAM_init_def)
  have 2: "target_layer_name self2 = name l"
    if "GradCAM_init ini2 s2 m None k = Inr (self2, t2)" for ini2 s2 self2 t2
  proof -
    note lin2 = GradCAM_init_Inr [OF that]
    have "map (\<lambda>l. (name l, output_shape l)) (rev (layers (model self2)))
            = map (\<lambda>l. (name l, output_shape l)) (rev (layers m'))"
      using linearize_signature [OF lin2 assms(1)] by (simp add: rev_map [symmetric])
    then have "find_target_layer (model self2) k = find_target_layer m' k"
      unfolding find_target_layer_def by (rule scan_layers_cong)
    with found GradCAM_init_search [OF that] show ?thesis by simp
  qed
  from 1 2 show ?thesis by blast
qed

lemma target_layer_deepest_example:
  "linearize (\<lambda>i. 0) demo_store demo_deep = Inr (demo_deep', demo_store')
   \<and> layers demo_deep' = [demo_conv] @ demo_conv2 # [demo_pool, demo_new_layer]
   \<and> length (output_shape demo_conv2) = 4 \<and> output_shape demo_conv2 ! 1 = Some 2
   \<and> GradCAM_init (\<lambda>i. 0) demo_store demo_deep None 1
       = Inr (\<lparr> model = demo_deep', target_layer_name = ''conv2'' \<rparr>, demo_store')"
  using target_layer_deepest [of "\<lambda>i. 0" demo_store demo_deep demo_deep' demo_store'
      "[demo_conv]" demo_conv2 "[demo_pool, demo_new_layer]" 2 1]
  by (simp add: demo_defs init_defs upt_rec)

section \<open>The search on stages of unknown height\<close>

text \<open>
  The exact outcome of the scan: it fails with the error of line 45 exactly when every
  stage fails the test of line 40, which requires every output of rank 4 to have a known
  dimension 1. A stage of rank 4 and unknown dimension 1 that the scan reaches makes
  construction fail with a \<^verbatim>\<open>TypeError\<close> instead.
\<close>

lemma scan_layers_no_4d_iff:
  "scan_layers xs k = Inl no_4d_layer \<longleftrightarrow>
     (\<forall>x \<in> set xs. length (output_shape x) = 4 \<longrightarrow>
         (\<exists>e. output_shape x ! 1 = Some e \<and> e < k))"
  by (induction xs) (auto simp: no_4d_layer_def split: option.splits)

lemma init_no_4d_layer:
  assumes "linearize ini s m = Inr (m', s')"
      and "\<forall>x \<in> set (layers m'). length (output_shape x) = 4 \<longrightarrow>
             (\<exists>e. output_shape x ! 1 = Some e \<and> e < k)"
  shows "GradCAM_init ini s m None k = Inl no_4d_layer"
proof -
  have "scan_layers (rev (layers m')) k = Inl no_4d_layer"
    using assms(2) by (intro scan_layers_none) simp
  with assms(1) show ?thesis by (simp add: GradCAM_init_def find_target_layer_def)
qed

lemma init_unknown_height:
  assumes "linearize ini s m = Inr (m', s')"
      and "layers m' = pre @ l # post"
      and "length (output_shape l) = 4" and "output_shape l ! 1 = None"
      and "\<forall>x \<in> set post. length (output_shape x) = 4 \<longrightarrow>
             (\<exists>e. output_shape x ! 1 = Some e \<and> e < k)"
  shows "GradCAM_init ini s m None k = Inl TypeError"
proof -
  have "rev (layers m') = rev post @ l # rev pre" using assms(2) by simp
  moreover have "\<forall>x \<in> set (rev post). length (output_shape x) = 4 \<longrightarrow>
             (\<exists>e. output_shape x ! 1 = Some e \<and> e < k)"
    using assms(5) by simp
  ultimately have "scan_layers (rev (layers m')) k = Inl TypeError"
    using scan_layers_unknown [OF assms(3,4)] by simp
  with assms(1) show ?thesis by (simp add: GradCAM_init_def find_target_layer_def)
qed

text \<open>
  C6. The code departs from the claim on a classifier whose only stage of rank 4 has an
  unknown height (a convolution over images of any size): no stage has a dimension 1 of
  at least the minimum, yet construction does not fail with the error of line 45 but with
  the \<^verbatim>\<open>TypeError\<close> of the comparison of \<^verbatim>\<open>None\<close> with an integer.
\<close>

theorem search_unknown_height:
  "GradCAM_init (\<lambda>i. 0) demo_store \<lparr> layers = [demo_dynamic, demo_pool, demo_dense] \<rparr> None 1
     = Inl TypeError"
  by (simp add: demo_defs init_defs upt_rec)

end
